theory Spec2Isabelle
  imports Complex_Main "HOL-Library.AList"
begin

section \<open>Strings and Python helpers\<close>

text \<open>
  A Python \<open>str\<close> is a sequence of Unicode code points, so it is a list of naturals
  here; \<open>str\<close> turns an ASCII literal into one. The floats a vector holds are real
  numbers here; the arithmetic of floats is an argument of \<open>search_with\<close>.
\<close>

type_synonym pystr = "nat list"

definition str :: "string \<Rightarrow> pystr" where
  "str s = map of_char s"

text \<open>\<open>xs[start:]\<close>: a negative start counts from the end and is clipped at 0.\<close>

definition py_slice_from :: "'a list \<Rightarrow> int \<Rightarrow> 'a list" where
  "py_slice_from xs start =
     (if start < 0 then drop (nat (int (length xs) + start)) xs else drop (nat start) xs)"

text \<open>
  \<open>s.lower()\<close>, one code point at a time, and the \<open>\w\<close> of a pattern. Python takes
  both from the Unicode tables. \<open>lower\<close> is Python's on ASCII, on U+0130 (which becomes
  two code points) and on the Kelvin sign U+212A, which are the cased letters the
  language pattern below can match; \<open>is_word\<close> is Python's on ASCII: letters, digits
  and the underscore. The navigation service, which lowers and searches any text,
  takes the two tables as an argument; \<open>ascii_tables\<close> are these two, right on ASCII
  text.
\<close>

definition lower_cp :: "nat \<Rightarrow> pystr" where
  "lower_cp c =
     (if 65 \<le> c \<and> c \<le> 90 then [c + 32]
      else if c = 304 then [105, 775]
      else if c = 8490 then [107]
      else [c])"

definition lower :: "pystr \<Rightarrow> pystr" where
  "lower s = concat (map lower_cp s)"

definition is_word :: "nat \<Rightarrow> bool" where
  "is_word c = ((48 \<le> c \<and> c \<le> 57) \<or> (65 \<le> c \<and> c \<le> 90) \<or> c = 95 \<or> (97 \<le> c \<and> c \<le> 122))"

text \<open>\<open>sub in s\<close> on strings: \<open>sub\<close> stands somewhere in \<open>s\<close>.\<close>

fun contains :: "pystr \<Rightarrow> pystr \<Rightarrow> bool" where
  "contains [] sub = (sub = [])"
| "contains (c # cs) sub = (take (length sub) (c # cs) = sub \<or> contains cs sub)"

record unicode =
  u_lower :: "pystr \<Rightarrow> pystr"
  u_word :: "nat \<Rightarrow> bool"

definition ascii_tables :: unicode where
  "ascii_tables = \<lparr>u_lower = lower, u_word = is_word\<rparr>"

text \<open>
  \<open>re.search(r'\b' + re.escape(keyword) + r'\b', s)\<close>: the keyword stands somewhere in
  \<open>s\<close> with a word boundary on both sides. A boundary is a place with a word character
  (\<open>is_w\<close>) on exactly one side; \<open>prev\<close> tells whether the character before the place
  is one. The search tries every place from the left, the end of the string included.
\<close>

definition starts_word :: "(nat \<Rightarrow> bool) \<Rightarrow> pystr \<Rightarrow> bool" where
  "starts_word is_w s = (case s of [] \<Rightarrow> False | c # cs \<Rightarrow> is_w c)"

definition match_here :: "(nat \<Rightarrow> bool) \<Rightarrow> pystr \<Rightarrow> bool \<Rightarrow> pystr \<Rightarrow> bool" where
  "match_here is_w keyword prev s =
     (take (length keyword) s = keyword \<and>
      prev \<noteq> starts_word is_w s \<and>
      (if keyword = [] then prev else is_w (last keyword)) \<noteq>
        starts_word is_w (drop (length keyword) s))"

fun word_search_from :: "(nat \<Rightarrow> bool) \<Rightarrow> pystr \<Rightarrow> bool \<Rightarrow> pystr \<Rightarrow> bool" where
  "word_search_from is_w keyword prev [] = match_here is_w keyword prev []"
| "word_search_from is_w keyword prev (c # cs) =
     (match_here is_w keyword prev (c # cs) \<or> word_search_from is_w keyword (is_w c) cs)"

definition word_search :: "(nat \<Rightarrow> bool) \<Rightarrow> pystr \<Rightarrow> pystr \<Rightarrow> bool" where
  "word_search is_w keyword s = word_search_from is_w keyword False s"

text \<open>An integer in an f-string or as a JSON key: its decimal digits.\<close>

fun nat_digits :: "nat \<Rightarrow> pystr" where
  "nat_digits n = (if n < 10 then [48 + n] else nat_digits (n div 10) @ [48 + n mod 10])"

definition int_str :: "int \<Rightarrow> pystr" where
  "int_str i = (if i < 0 then 45 # nat_digits (nat (- i)) else nat_digits (nat i))"

text \<open>The exceptions of Python and its libraries that the code can meet.\<close>

datatype error =
    DimensionMismatch int nat  \<comment> \<open>the ValueError of \<open>add_document\<close>: expected, got\<close>
  | ShapeError                 \<comment> \<open>the ValueError numpy raises on rows it cannot align\<close>
  | IndexError
  | TypeError
  | KeyError
  | AttributeError
  | ValueError
  | OSError
  | JSONDecodeError
  | RecursionError
  | TransportError             \<comment> \<open>what httpx raises when the request fails or times out\<close>
  | BodyNotJSON                \<comment> \<open>what \<open>response.json()\<close> raises on a body that is not JSON\<close>

definition and_then :: "error + 'a \<Rightarrow> ('a \<Rightarrow> error + 'b) \<Rightarrow> error + 'b" where
  "and_then x f = (case x of Inl e \<Rightarrow> Inl e | Inr v \<Rightarrow> f v)"

fun sequence :: "(error + 'a) list \<Rightarrow> error + 'a list" where
  "sequence [] = Inr []"
| "sequence (x # xs) =
     (case x of
        Inl e \<Rightarrow> Inl e
      | Inr y \<Rightarrow> (case sequence xs of Inl e \<Rightarrow> Inl e | Inr ys \<Rightarrow> Inr (y # ys)))"


section \<open>Python values and JSON\<close>

text \<open>
  A JSON document, and what \<open>json.loads\<close> makes of it: dicts, lists, strings, ints,
  floats (the finite ones, as real numbers), booleans and \<open>None\<close>. An object is the
  list of its items. As a document it can repeat a key; as a value in Python it is a
  dict, and a key is looked up at its first item.
\<close>

datatype json =
    JNull
  | JBool bool
  | JInt int
  | JFloat real
  | JStr pystr
  | JArr "json list"
  | JObj "(pystr \<times> json) list"

text \<open>
  The operations of Python the services apply to such values, with the error each
  raises on a value of the wrong type: truth in a condition, \<open>key in x\<close>, \<open>x[key]\<close> for
  a string key, \<open>x.get(key, default)\<close>, \<open>len(x)\<close>, \<open>x[0]\<close>, \<open>x[:10]\<close> and \<open>for y in x\<close>.
  A dict cannot be sliced: a TypeError (a KeyError from Python 3.12 on, where a slice
  can be a key).
\<close>

definition truthy :: "json \<Rightarrow> bool" where
  "truthy x =
     (case x of
        JNull \<Rightarrow> False
      | JBool b \<Rightarrow> b
      | JInt i \<Rightarrow> i \<noteq> 0
      | JFloat r \<Rightarrow> r \<noteq> 0
      | JStr s \<Rightarrow> s \<noteq> []
      | JArr xs \<Rightarrow> xs \<noteq> []
      | JObj kvs \<Rightarrow> kvs \<noteq> [])"

definition py_in :: "pystr \<Rightarrow> json \<Rightarrow> error + bool" where
  "py_in key x =
     (case x of
        JObj kvs \<Rightarrow> Inr (key \<in> set (map fst kvs))
      | JArr xs \<Rightarrow> Inr (JStr key \<in> set xs)
      | JStr s \<Rightarrow> Inr (contains s key)
      | _ \<Rightarrow> Inl TypeError)"

definition py_getitem :: "json \<Rightarrow> pystr \<Rightarrow> error + json" where
  "py_getitem x key =
     (case x of
        JObj kvs \<Rightarrow> (case map_of kvs key of Some v \<Rightarrow> Inr v | None \<Rightarrow> Inl KeyError)
      | _ \<Rightarrow> Inl TypeError)"

definition py_get :: "json \<Rightarrow> pystr \<Rightarrow> json \<Rightarrow> error + json" where
  "py_get x key dflt =
     (case x of
        JObj kvs \<Rightarrow> (case map_of kvs key of Some v \<Rightarrow> Inr v | None \<Rightarrow> Inr dflt)
      | _ \<Rightarrow> Inl AttributeError)"




definition py_iter :: "json \<Rightarrow> error + json list" where
  "py_iter x =
     (case x of
        JArr ys \<Rightarrow> Inr ys
      | JStr s \<Rightarrow> Inr (map (\<lambda>c. JStr [c]) s)
      | JObj kvs \<Rightarrow> Inr (map (\<lambda>kv. JStr (fst kv)) kvs)
      | _ \<Rightarrow> Inl TypeError)"

text \<open>
  The values a store can hold as metadata are any Python values: besides those of
  JSON there are tuples, dicts with keys that are not strings, and objects \<open>json\<close> knows
  nothing of. A float key is given by its \<open>repr\<close>.
\<close>

datatype pykey = KStr pystr | KInt int | KBool bool | KNone | KFloat pystr | KOther

datatype pyval =
    PNone
  | PBool bool
  | PInt int
  | PFloat real
  | PStr pystr
  | PList "pyval list"
  | PTuple "pyval list"
  | PDict "(pykey \<times> pyval) list"
  | PObject

text \<open>
  \<open>json.dump\<close>: a tuple is written as an array, a key that is an int, a float, a
  boolean or \<open>None\<close> as a string, and any other key or object is a TypeError.
\<close>

definition key_str :: "pykey \<Rightarrow> error + pystr" where
  "key_str k =
     (case k of
        KStr s \<Rightarrow> Inr s
      | KInt i \<Rightarrow> Inr (int_str i)
      | KBool b \<Rightarrow> Inr (if b then str ''true'' else str ''false'')
      | KNone \<Rightarrow> Inr (str ''null'')
      | KFloat r \<Rightarrow> Inr r
      | KOther \<Rightarrow> Inl TypeError)"

fun item_json :: "pykey \<times> (error + json) \<Rightarrow> error + pystr \<times> json" where
  "item_json (k, v) =
     (case key_str k of
        Inl e \<Rightarrow> Inl e
      | Inr s \<Rightarrow> (case v of Inl e \<Rightarrow> Inl e | Inr j \<Rightarrow> Inr (s, j)))"

primrec to_json :: "pyval \<Rightarrow> error + json" where
  "to_json PNone = Inr JNull"
| "to_json (PBool b) = Inr (JBool b)"
| "to_json (PInt i) = Inr (JInt i)"
| "to_json (PFloat r) = Inr (JFloat r)"
| "to_json (PStr s) = Inr (JStr s)"
| "to_json (PList xs) =
     (case sequence (map to_json xs) of Inl e \<Rightarrow> Inl e | Inr js \<Rightarrow> Inr (JArr js))"
| "to_json (PTuple xs) =
     (case sequence (map to_json xs) of Inl e \<Rightarrow> Inl e | Inr js \<Rightarrow> Inr (JArr js))"
| "to_json (PDict kvs) =
     (case sequence (map item_json (map (map_prod id to_json) kvs)) of
        Inl e \<Rightarrow> Inl e
      | Inr items \<Rightarrow> Inr (JObj items))"
| "to_json PObject = Inl TypeError"

text \<open>
  \<open>json.load\<close>: an object becomes a dict with string keys; of two items with the same
  key the later value stays, at the place of the first.
\<close>

primrec of_json :: "json \<Rightarrow> pyval" where
  "of_json JNull = PNone"
| "of_json (JBool b) = PBool b"
| "of_json (JInt i) = PInt i"
| "of_json (JFloat r) = PFloat r"
| "of_json (JStr s) = PStr s"
| "of_json (JArr js) = PList (map of_json js)"
| "of_json (JObj items) =
     PDict (foldl (\<lambda>d (k, v). AList.update k v d) []
              (map (map_prod KStr id) (map (map_prod id of_json) items)))"

text \<open>
  The Python values that are those of JSON: no tuple, no foreign object, and dicts
  whose keys are distinct strings.
\<close>

primrec json_native :: "pyval \<Rightarrow> bool" where
  "json_native PNone = True"
| "json_native (PBool b) = True"
| "json_native (PInt i) = True"
| "json_native (PFloat r) = True"
| "json_native (PStr s) = True"
| "json_native (PList xs) = list_all id (map json_native xs)"
| "json_native (PTuple xs) = False"
| "json_native (PDict kvs) =
     (list_all (\<lambda>(k, ok). (case k of KStr s \<Rightarrow> ok | _ \<Rightarrow> False))
        (map (map_prod id json_native) kvs) \<and>
      distinct (map fst kvs))"
| "json_native PObject = False"


section \<open>Vector store (rag\_service.py)\<close>

record 'm VectorDatabase =
  vectors :: "real list list"
  metadata :: "'m list"
  dimension :: int

definition VectorDatabase_init :: "int \<Rightarrow> 'm VectorDatabase" where
  "VectorDatabase_init d = \<lparr>vectors = [], metadata = [], dimension = d\<rparr>"

text \<open>
  Every operation returns its outcome together with the store afterwards, so that a
  raised error still shows what it left behind.
\<close>

definition add_document ::
  "'m VectorDatabase \<Rightarrow> real list \<Rightarrow> 'm \<Rightarrow> (error + nat) \<times> 'm VectorDatabase" where
  "add_document db vector md =
     (if int (length vector) \<noteq> dimension db
      then (Inl (DimensionMismatch (dimension db) (length vector)), db)
      else (let doc_id = length (vectors db)
            in (Inr doc_id,
                db\<lparr>vectors := vectors db @ [vector], metadata := metadata db @ [md]\<rparr>)))"

definition dot :: "real list \<Rightarrow> real list \<Rightarrow> real" where
  "dot a b = sum_list (map2 (*) a b)"

definition norm2 :: "real list \<Rightarrow> real" where
  "norm2 a = sqrt (sum_list (map (\<lambda>x. x * x) a))"

definition eps :: real where
  "eps = 1 / 10 ^ 10"

definition similarity :: "real list \<Rightarrow> real list \<Rightarrow> real" where
  "similarity query doc = dot doc query / (max (norm2 query) eps * max (norm2 doc) eps)"

text \<open>
  \<open>np.argsort\<close>: the indices in ascending order of their values. numpy leaves the order
  of equal values open; the stable order stands for it here. The similarities are
  computed in exact arithmetic in \<open>search\<close>; \<open>search_with\<close> below takes the floats'.
\<close>

definition argsort :: "real list \<Rightarrow> nat list" where
  "argsort xs = sort_key (\<lambda>i. xs ! i) [0..<length xs]"

fun collect_results ::
  "'f list \<Rightarrow> 'm list \<Rightarrow> nat list \<Rightarrow> error + (nat \<times> 'f \<times> 'm) list" where
  "collect_results sims md [] = Inr []"
| "collect_results sims md (idx # rest) =
     (if idx < length md
      then (case collect_results sims md rest of
              Inl e \<Rightarrow> Inl e
            | Inr rs \<Rightarrow> Inr ((idx, sims ! idx, md ! idx) # rs))
      else Inl IndexError)"

text \<open>
  \<open>np.array\<close> and \<open>np.dot\<close> need every stored row to be as long as the query, and raise
  otherwise. The store is not written by a search.
\<close>

definition search ::
  "'m VectorDatabase \<Rightarrow> real list \<Rightarrow> int \<Rightarrow> error + (nat \<times> real \<times> 'm) list" where
  "search db query_vector top_k =
     (if vectors db = [] then Inr []
      else if list_ex (\<lambda>v. length v \<noteq> length query_vector) (vectors db) then Inl ShapeError
      else (let similarities = map (similarity query_vector) (vectors db);
                top_indices = rev (py_slice_from (argsort similarities) (- top_k))
            in collect_results similarities (metadata db) top_indices))"

text \<open>
  The same search over the floats of numpy, which round, overflow to \<open>inf\<close> and know
  \<open>nan\<close>. A vector holds finite floats, which are real numbers; what is computed from
  them is a float of any kind, of a type \<open>'f\<close>. The arithmetic is an argument: \<open>np.dot\<close>
  of two rows, \<open>np.linalg.norm\<close> of a row, the \<open>max\<close> of Python, \<open>np.maximum\<close>, product,
  quotient and the constant \<open>1e-10\<close>; the dot product and the norm of a row are taken
  to depend on that row and the query only. So is \<open>np.argsort\<close>. \<open>search\<close> is this
  search in exact arithmetic with the stable sort.
\<close>

record 'f float_arith =
  np_dot :: "real list \<Rightarrow> real list \<Rightarrow> 'f"
  np_norm :: "real list \<Rightarrow> 'f"
  py_max :: "'f \<Rightarrow> 'f \<Rightarrow> 'f"
  np_maximum :: "'f \<Rightarrow> 'f \<Rightarrow> 'f"
  f_times :: "'f \<Rightarrow> 'f \<Rightarrow> 'f"
  f_divide :: "'f \<Rightarrow> 'f \<Rightarrow> 'f"
  f_eps :: 'f

definition exact_arith :: "real float_arith" where
  "exact_arith =
     \<lparr>np_dot = dot, np_norm = norm2, py_max = max, np_maximum = max,
      f_times = (*), f_divide = (/), f_eps = eps\<rparr>"

definition similarity_with :: "'f float_arith \<Rightarrow> real list \<Rightarrow> real list \<Rightarrow> 'f" where
  "similarity_with F query doc =
     (let dot_product = np_dot F doc query;
          query_norm = np_norm F query;
          doc_norm = np_norm F doc;
          query_norm = py_max F query_norm (f_eps F);
          doc_norm = np_maximum F doc_norm (f_eps F)
      in f_divide F dot_product (f_times F query_norm doc_norm))"

definition search_with ::
  "'f float_arith \<Rightarrow> ('f list \<Rightarrow> nat list) \<Rightarrow>
   'm VectorDatabase \<Rightarrow> real list \<Rightarrow> int \<Rightarrow> error + (nat \<times> 'f \<times> 'm) list" where
  "search_with F np_argsort db query_vector top_k =
     (if vectors db = [] then Inr []
      else if list_ex (\<lambda>v. length v \<noteq> length query_vector) (vectors db) then Inl ShapeError
      else (let similarities = map (similarity_with F query_vector) (vectors db);
                top_indices = rev (py_slice_from (np_argsort similarities) (- top_k))
            in collect_results similarities (metadata db) top_indices))"

text \<open>A search as a method: its result and the store afterwards, which it does not write.\<close>

definition search_method ::
  "'m VectorDatabase \<Rightarrow> real list \<Rightarrow> int \<Rightarrow>
   (error + (nat \<times> real \<times> 'm) list) \<times> 'm VectorDatabase" where
  "search_method db query_vector top_k = (search db query_vector top_k, db)"

text \<open>
  \<open>save\<close> and \<open>load\<close> go through JSON, and \<open>load\<close> assigns what it finds, of whatever
  type. So they work on the three attributes as Python values; \<open>store_value\<close> gives those
  of a store.
\<close>

record py_store =
  s_vectors :: pyval
  s_metadata :: pyval
  s_dimension :: pyval

definition store_value :: "pyval VectorDatabase \<Rightarrow> py_store" where
  "store_value db =
     \<lparr>s_vectors = PList (map (\<lambda>v. PList (map PFloat v)) (vectors db)),
      s_metadata = PList (metadata db),
      s_dimension = PInt (dimension db)\<rparr>"

text \<open>
  A file holds a JSON document or something that is not JSON. \<open>denied\<close> are the paths
  that \<open>open\<close> refuses: a directory, a path in a directory that is not there, a file
  without the permission.
\<close>

datatype file_content = NotJSON | Doc json

record filesystem =
  files :: "pystr \<rightharpoonup> file_content"
  denied :: "pystr set"

text \<open>
  \<open>json\<close> is bound by limits of the interpreter, which are settings: on a document
  nested too deep it raises a RecursionError and on an int of too many digits a
  ValueError, writing as well as reading. \<open>json_limits\<close> gives the error, if any, for a
  document; it is an argument.

  \<open>open(filepath, 'w')\<close> empties the file and \<open>json.dump\<close> writes piece by piece, the
  opening brace first: when it raises, what is left in the file is not JSON. The store
  is not written.
\<close>

definition store_document :: "py_store \<Rightarrow> error + json" where
  "store_document st =
     to_json (PDict [(KStr (str ''dimension''), s_dimension st),
                     (KStr (str ''vectors''), s_vectors st),
                     (KStr (str ''metadata''), s_metadata st)])"

definition save ::
  "(json \<Rightarrow> error option) \<Rightarrow> py_store \<Rightarrow> pystr \<Rightarrow> filesystem \<Rightarrow>
   (error + unit) \<times> py_store \<times> filesystem" where
  "save json_limits st filepath fs =
     (if filepath \<in> denied fs then (Inl OSError, st, fs)
      else (case store_document st of
              Inl e \<Rightarrow> (Inl e, st, fs\<lparr>files := (files fs)(filepath \<mapsto> NotJSON)\<rparr>)
            | Inr doc \<Rightarrow>
                (case json_limits doc of
                   Some e \<Rightarrow> (Inl e, st, fs\<lparr>files := (files fs)(filepath \<mapsto> NotJSON)\<rparr>)
                 | None \<Rightarrow> (Inr (), st, fs\<lparr>files := (files fs)(filepath \<mapsto> Doc doc)\<rparr>))))"

text \<open>
  \<open>load\<close> does nothing when \<open>os.path.exists\<close> finds no file. \<open>json.load\<close> raises on a
  file that is not JSON and \<open>data.get\<close> on a document that is not an object, before
  anything is assigned.
\<close>

definition dict_get :: "(pykey \<times> pyval) list \<Rightarrow> pystr \<Rightarrow> pyval \<Rightarrow> pyval" where
  "dict_get kvs key dflt = (case map_of kvs (KStr key) of Some v \<Rightarrow> v | None \<Rightarrow> dflt)"

definition load ::
  "(json \<Rightarrow> error option) \<Rightarrow> py_store \<Rightarrow> pystr \<Rightarrow> filesystem \<Rightarrow>
   (error + unit) \<times> py_store" where
  "load json_limits st filepath fs =
     (case files fs filepath of
        None \<Rightarrow> (Inr (), st)
      | Some file \<Rightarrow>
          if filepath \<in> denied fs then (Inl OSError, st)
          else (case file of
                  NotJSON \<Rightarrow> (Inl JSONDecodeError, st)
                | Doc doc \<Rightarrow>
                    (case json_limits doc of
                       Some e \<Rightarrow> (Inl e, st)
                     | None \<Rightarrow>
                         (case of_json doc of
                            PDict data \<Rightarrow>
                              (Inr (),
                               \<lparr>s_vectors = dict_get data (str ''vectors'') (PList []),
                                s_metadata = dict_get data (str ''metadata'') (PList []),
                                s_dimension =
                                  dict_get data (str ''dimension'') (s_dimension st)\<rparr>)
                          | _ \<Rightarrow> (Inl AttributeError, st)))))"

text \<open>The invariant of the data model: every stored vector has the store's length.\<close>

definition store_inv :: "'m VectorDatabase \<Rightarrow> bool" where
  "store_inv db = list_all (\<lambda>v. int (length v) = dimension db) (vectors db)"

text \<open>The same invariant on the attributes as Python values.\<close>

definition py_store_inv :: "py_store \<Rightarrow> bool" where
  "py_store_inv st =
     (case s_dimension st of
        PInt d \<Rightarrow>
          (case s_vectors st of
             PList vs \<Rightarrow>
               list_all (\<lambda>v. case v of PList xs \<Rightarrow> int (length xs) = d | _ \<Rightarrow> False) vs
           | _ \<Rightarrow> False)
      | _ \<Rightarrow> False)"


section \<open>Chat history (chatbot\_service.py)\<close>

record ChatTurn =
  role :: pystr
  content :: pystr
  timestamp :: pystr

type_synonym chat_memory = "pystr \<rightharpoonup> ChatTurn list"

text \<open>\<open>now\<close> is the clock's reading, \<open>datetime.now().isoformat()\<close>.\<close>

definition add_to_chat_history ::
  "chat_memory \<Rightarrow> pystr \<Rightarrow> pystr \<Rightarrow> pystr \<Rightarrow> pystr \<Rightarrow> chat_memory" where
  "add_to_chat_history mem user_id r message now =
     (let history = (case mem user_id of None \<Rightarrow> [] | Some h \<Rightarrow> h);
          appended = history @ [\<lparr>role = r, content = message, timestamp = now\<rparr>]
      in mem(user_id \<mapsto>
           (if length appended > 10 then py_slice_from appended (- 10) else appended)))"

definition get_chat_history :: "chat_memory \<Rightarrow> pystr \<Rightarrow> ChatTurn list" where
  "get_chat_history mem user_id = (case mem user_id of None \<Rightarrow> [] | Some h \<Rightarrow> h)"

definition clear_chat_history :: "chat_memory \<Rightarrow> pystr \<Rightarrow> bool \<times> chat_memory" where
  "clear_chat_history mem user_id =
     (case mem user_id of None \<Rightarrow> (False, mem) | Some h \<Rightarrow> (True, mem(user_id \<mapsto> [])))"

text \<open>
  What one call of \<open>process_message\<close> does to the history: nothing without a user
  id (\<open>None\<close> or the empty string), else the user's turn, then the assistant's, each
  through \<open>_add_to_chat_history\<close>.
\<close>

definition record_exchange ::
  "pystr option \<Rightarrow> chat_memory \<Rightarrow> (pystr \<times> pystr) \<times> (pystr \<times> pystr) \<Rightarrow> chat_memory" where
  "record_exchange user_id mem ex =
     (case ex of ((clean_message, t1), (advice_message, t2)) \<Rightarrow>
        (case user_id of
           None \<Rightarrow> mem
         | Some uid \<Rightarrow>
             if uid = [] then mem
             else add_to_chat_history
                    (add_to_chat_history mem uid (str ''user'') clean_message t1)
                    uid (str ''assistant'') advice_message t2))"

text \<open>
  The endpoint of main.py keeps a history of its own, of role and content only: both
  turns are appended, then the list is cut.
\<close>

type_synonym chat_history = "pystr \<rightharpoonup> (pystr \<times> pystr) list"

definition store_exchange ::
  "chat_history \<Rightarrow> pystr option \<Rightarrow> pystr \<Rightarrow> pystr \<Rightarrow> chat_history" where
  "store_exchange hist user_id request_message message =
     (case user_id of
        None \<Rightarrow> hist
      | Some uid \<Rightarrow>
          if uid = [] then hist
          else (let history = (case hist uid of None \<Rightarrow> [] | Some h \<Rightarrow> h);
                    appended = history @
                      [(str ''user'', request_message), (str ''assistant'', message)]
                in hist(uid \<mapsto>
                     (if length appended > 10 then py_slice_from appended (- 10)
                      else appended))))"


section \<open>Navigation suggestions (navigation\_service.py)\<close>

text \<open>
  The navigation contexts come from app\_context.json, which is data of the deployment:
  they are an argument here. A context without a route has \<open>route = None\<close>; a list that
  the document leaves out is empty.
\<close>

record NavigationContext =
  route :: "pystr option"
  title :: pystr
  description :: pystr
  intent_keywords :: "pystr list"
  user_needs :: "pystr list"
  sample_questions :: "pystr list"

text \<open>
  \<open>_extract_keywords\<close> fills a dictionary in the order of the contexts: a route met
  again keeps its place and takes the later keywords, which is \<open>AList.update\<close>.
  \<open>list(set(keywords))\<close> drops the duplicates.
\<close>

definition extract_keywords :: "NavigationContext list \<Rightarrow> (pystr \<times> pystr list) list" where
  "extract_keywords navigation_contexts =
     foldl (\<lambda>context_keywords context.
              case route context of
                None \<Rightarrow> context_keywords
              | Some r \<Rightarrow>
                  if r = [] then context_keywords
                  else AList.update r
                         (remdups (intent_keywords context @ user_needs context))
                         context_keywords)
       [] navigation_contexts"

text \<open>
  The tags are what the model's reply held under \<open>tags\<close>, passed on as they came: any
  JSON value, by intent a dict. The three conditions on the tags that the loop
  evaluates, each with the error it can raise: \<open>key in e and e[key]\<close>,
  \<open>e.get(key, [])\<close> as a condition, and the \<open>any(...)\<close> over the topics.
\<close>

definition present_and_true :: "pystr \<Rightarrow> json \<Rightarrow> error + bool" where
  "present_and_true key e =
     and_then (py_in key e) (\<lambda>present.
       if present then and_then (py_getitem e key) (\<lambda>v. Inr (truthy v)) else Inr False)"

definition get_true :: "pystr \<Rightarrow> json \<Rightarrow> error + bool" where
  "get_true key e = and_then (py_get e key (JArr [])) (\<lambda>v. Inr (truthy v))"

definition topics_match :: "json \<Rightarrow> error + bool" where
  "topics_match e =
     and_then (py_get e (str ''topics'') (JArr [])) (\<lambda>v.
       and_then (py_iter v) (\<lambda>ts.
         Inr (list_ex (\<lambda>topic. topic \<in> set [JStr (str ''cultivation''),
                                   JStr (str ''farming techniques''),
                                   JStr (str ''agricultural education'')]) ts)))"

text \<open>
  The body of the loop over the routes: the score of one route, or the error raised
  on the way. An \<open>and\<close> or an \<open>or\<close> evaluates its right side only when the left one
  leaves it open.
\<close>

definition route_score ::
  "unicode \<Rightarrow> pystr \<Rightarrow> pystr list \<Rightarrow> pystr \<Rightarrow> json \<Rightarrow> error + int" where
  "route_score U r keywords message extracted_entities =
     (let score = 0;
          score = foldl (\<lambda>score keyword.
                    if word_search (u_word U) (u_lower U keyword) (u_lower U message)
                    then score + 2 else score)
                    score keywords
      in and_then (present_and_true (str ''crops'') extracted_entities) (\<lambda>crops_given.
         let score = (if crops_given \<and>
                         r \<in> set [str ''/resource-pool'', str ''/podcasts'', str ''/chatbot'']
                      then score + 3 else score)
         in and_then (present_and_true (str ''city'') extracted_entities) (\<lambda>city_given.
         let score = (if city_given \<and>
                         r \<in> set [str ''/search-cooperatives'', str ''/nearby-cooperatives'']
                      then score + 3 else score)
         in and_then
              (if r = str ''/podcasts''
               then (if contains (u_lower U message) (str ''learn'') \<or>
                        contains (u_lower U message) (str ''information'')
                     then Inr True else topics_match extracted_entities)
               else Inr False) (\<lambda>podcasts_hit.
         let score = (if podcasts_hit then score + 3 else score);
             score = (if r = str ''/resource-pool'' \<and>
                         (contains (u_lower U message) (str ''equipment'') \<or>
                          contains (u_lower U message) (str ''tools''))
                      then score + 2 else score)
         in and_then
              (if r = str ''/chatbot''
               then (if list_ex (\<lambda>term. contains (u_lower U message) term)
                          [str ''help'', str ''advice'', str ''problem'', str ''issue'']
                     then Inr True else get_true (str ''issues'') extracted_entities)
               else Inr False) (\<lambda>chatbot_hit.
         let score = (if chatbot_hit then score + 4 else score);
             score = (if r = str ''/community'' \<and>
                         list_ex (\<lambda>term. contains (u_lower U message) term)
                           [str ''discuss'', str ''talk'', str ''other farmers'']
                      then score + 2 else score)
         in and_then (get_true (str ''crops'') extracted_entities) (\<lambda>crops_true.
         let score = (if crops_true \<and> r = str ''/chatbot'' then score + 3 else score)
         in and_then (get_true (str ''issues'') extracted_entities) (\<lambda>issues_true.
         Inr (if issues_true \<and> r = str ''/community'' then score + 2 else score))))))))"

text \<open>
  The loop: the score of every route, in the order of \<open>context_keywords\<close>, which is a
  dict and so holds a route once; the first error ends it.
\<close>

fun route_scores ::
  "unicode \<Rightarrow> (pystr \<times> pystr list) list \<Rightarrow> pystr \<Rightarrow> json \<Rightarrow> error + (pystr \<times> int) list" where
  "route_scores U [] message extracted_entities = Inr []"
| "route_scores U ((r, keywords) # rest) message extracted_entities =
     and_then (route_score U r keywords message extracted_entities) (\<lambda>score.
       and_then (route_scores U rest message extracted_entities) (\<lambda>scores.
         Inr ((r, score) # scores)))"

text \<open>
  \<open>sorted(..., reverse=True)\<close> is stable: routes of equal score keep the order of the
  dictionary. So does \<open>sort_key\<close> on the negated score.
\<close>

definition suggest_navigations ::
  "unicode \<Rightarrow> (pystr \<times> pystr list) list \<Rightarrow> pystr \<Rightarrow> json \<Rightarrow> error + pystr list" where
  "suggest_navigations U context_keywords message extracted_entities =
     and_then (route_scores U context_keywords message extracted_entities) (\<lambda>route_scores.
       let sorted_routes = sort_key (\<lambda>(r, score). - score) route_scores;
           suggestions = take 3 (map fst (filter (\<lambda>(r, score). score > 0) sorted_routes));
           suggestions = (if str ''/chatbot'' \<notin> set suggestions \<and> suggestions \<noteq> []
                          then suggestions @ [str ''/chatbot''] else suggestions)
       in Inr (if suggestions = []
               then [str ''/chatbot'', str ''/podcasts'', str ''/community'']
               else suggestions))"


text \<open>The tags on which the loop over the topics can run: a list, a string or a dict.\<close>

definition topics_iterable :: "(pystr \<times> json) list \<Rightarrow> bool" where
  "topics_iterable kvs =
     (case map_of kvs (str ''topics'') of
        None \<Rightarrow> True
      | Some v \<Rightarrow> (case v of JArr ts \<Rightarrow> True | JStr s \<Rightarrow> True | JObj ts \<Rightarrow> True | _ \<Rightarrow> False))"

text \<open>A small configuration, for the examples below.\<close>

definition example_contexts :: "NavigationContext list" where
  "example_contexts =
     [\<lparr>route = Some (str ''/podcasts''), title = [], description = [],
        intent_keywords = [str ''podcast''], user_needs = [], sample_questions = []\<rparr>,
      \<lparr>route = Some (str ''/resource-pool''), title = [], description = [],
        intent_keywords = [str ''rent''], user_needs = [], sample_questions = []\<rparr>,
      \<lparr>route = Some (str ''/community''), title = [], description = [],
        intent_keywords = [str ''talk''], user_needs = [], sample_questions = []\<rparr>,
      \<lparr>route = Some (str ''/chatbot''), title = [], description = [],
        intent_keywords = [str ''chat''], user_needs = [], sample_questions = []\<rparr>]"


section \<open>Language detection (language\_service.py, config.py)\<close>

definition SUPPORTED_LANGUAGES :: "(pystr \<times> pystr) list" where
  "SUPPORTED_LANGUAGES =
     [(str ''en'', str ''English''), (str ''hi'', str ''Hindi''), (str ''pa'', str ''Punjabi''),
      (str ''ta'', str ''Tamil''), (str ''te'', str ''Telugu''), (str ''mr'', str ''Marathi'')]"

definition DEFAULT_LANGUAGE :: pystr where
  "DEFAULT_LANGUAGE = str ''en''"

text \<open>
  The character classes of the pattern \<open>^in\s+([a-zA-Z]+)[\s:-]\<close>, compiled with
  \<open>re.IGNORECASE\<close>: \<open>\s\<close> is Unicode whitespace; under IGNORECASE \<open>[a-zA-Z]\<close> takes the
  52 ASCII letters and the four letters that fold to one of them (U+0130, U+0131,
  U+017F, U+212A), \<open>i\<close> takes i, I, U+0130 and U+0131, and \<open>n\<close> takes n and N.
\<close>

definition is_space :: "nat \<Rightarrow> bool" where
  "is_space c =
     ((9 \<le> c \<and> c \<le> 13) \<or> (28 \<le> c \<and> c \<le> 32) \<or> c = 133 \<or> c = 160 \<or> c = 5760 \<or>
      (8192 \<le> c \<and> c \<le> 8202) \<or> c = 8232 \<or> c = 8233 \<or> c = 8239 \<or> c = 8287 \<or>
      c = 12288)"

definition is_letter :: "nat \<Rightarrow> bool" where
  "is_letter c =
     ((65 \<le> c \<and> c \<le> 90) \<or> (97 \<le> c \<and> c \<le> 122) \<or>
      c = 304 \<or> c = 305 \<or> c = 383 \<or> c = 8490)"

definition is_sep :: "nat \<Rightarrow> bool" where
  "is_sep c = (is_space c \<or> c = 58 \<or> c = 45)"

text \<open>
  The match of the pattern at the start of the text: group 1 and what follows the
  match. Both repetitions are greedy and nothing is gained by giving back: a shorter
  run of whitespace is followed by whitespace, which is no letter, and a shorter run
  of letters is followed by a letter, which is not in \<open>[\s:-]\<close>.
\<close>

definition match_language_prefix :: "pystr \<Rightarrow> (pystr \<times> pystr) option" where
  "match_language_prefix text =
     (case text of
        c1 # c2 # rest \<Rightarrow>
          if c1 \<in> set [105, 73, 304, 305] \<and> c2 \<in> set [110, 78] \<and>
             takeWhile is_space rest \<noteq> [] \<and>
             takeWhile is_letter (dropWhile is_space rest) \<noteq> []
          then (case dropWhile is_letter (dropWhile is_space rest) of
                  s # after \<Rightarrow>
                    if is_sep s
                    then Some (takeWhile is_letter (dropWhile is_space rest), after)
                    else None
                | [] \<Rightarrow> None)
          else None
      | _ \<Rightarrow> None)"

text \<open>
  The second half of \<open>_extract_explicit_language\<close>: the name is a code, or the first
  language in whose lowered display name it occurs.
\<close>

definition lookup_language :: "pystr \<Rightarrow> pystr option" where
  "lookup_language lang_name =
     (if lang_name \<in> set (map fst SUPPORTED_LANGUAGES) then Some lang_name
      else (case find (\<lambda>(code, name). contains (lower name) lang_name)
                   SUPPORTED_LANGUAGES of
              Some (code, name) \<Rightarrow> Some code
            | None \<Rightarrow> None))"

definition extract_explicit_language :: "pystr \<Rightarrow> pystr option" where
  "extract_explicit_language text =
     (case match_language_prefix text of
        Some (group1, after) \<Rightarrow> lookup_language (lower group1)
      | None \<Rightarrow> None)"

text \<open>
  \<open>detect\<close> is langdetect's function; \<open>None\<close> is its LangDetectException. A code with
  a region is cut at the first hyphen.
\<close>

definition detect_language :: "(pystr \<Rightarrow> pystr option) \<Rightarrow> pystr \<Rightarrow> pystr" where
  "detect_language detect text =
     (let explicit_lang = extract_explicit_language text
      in if explicit_lang \<noteq> None \<and> explicit_lang \<noteq> Some []
         then (case explicit_lang of Some l \<Rightarrow> l | None \<Rightarrow> [])
         else (case detect text of
                 None \<Rightarrow> DEFAULT_LANGUAGE
               | Some detected \<Rightarrow>
                   if detected \<in> set (map fst SUPPORTED_LANGUAGES) then detected
                   else if 45 \<in> set detected \<and>
                           takeWhile (\<lambda>c. c \<noteq> 45) detected \<in> set (map fst SUPPORTED_LANGUAGES)
                   then takeWhile (\<lambda>c. c \<noteq> 45) detected
                   else if detected = str ''ur'' \<and>
                           str ''hi'' \<in> set (map fst SUPPORTED_LANGUAGES)
                   then str ''hi''
                   else DEFAULT_LANGUAGE))"

text \<open>
  \<open>re.sub\<close> with the same pattern followed by \<open>\s*\<close>. The pattern is anchored at the
  start, so there is at most one match to remove.
\<close>

definition clean_language_prefix :: "pystr \<Rightarrow> pystr" where
  "clean_language_prefix text =
     (case match_language_prefix text of
        Some (group1, after) \<Rightarrow> dropWhile is_space after
      | None \<Rightarrow> text)"

text \<open>The Hindi sentence of the test, as code points.\<close>

definition hindi_text :: pystr where
  "hindi_text =
     [2350, 2376, 2306, 32, 2347, 2360, 2354, 32, 2313, 2327, 2366, 2344, 2366, 32,
      2330, 2366, 2361, 2340, 2366, 32, 2361, 2370, 2306]"


section \<open>LLM client (claude\_service.py)\<close>
















section \<open>Properties of the Python values\<close>

lemma and_then_Inr [simp]: "and_then (Inr v) f = f v"
  by (simp add: and_then_def)

lemma and_then_Inl [simp]: "and_then (Inl e) f = Inl e"
  by (simp add: and_then_def)

lemma sequence_length:
  "sequence xs = Inr ys \<Longrightarrow> length ys = length xs"
  by (induction xs arbitrary: ys) (auto split: sum.splits)

lemma sequence_map_inverse:
  "(\<And>x. x \<in> set xs \<Longrightarrow> \<exists>j. f x = Inr j \<and> g j = x) \<Longrightarrow>
   \<exists>js. sequence (map f xs) = Inr js \<and> map g js = xs"
proof (induction xs)
  case Nil
  show ?case by simp
next
  case (Cons x xs)
  from Cons.prems obtain j where j: "f x = Inr j" "g j = x"
    by auto
  from Cons obtain js where js: "sequence (map f xs) = Inr js" "map g js = xs"
    by auto
  from j js show ?case
    by simp
qed

lemma update_fresh:
  "k \<notin> fst ` set d \<Longrightarrow> AList.update k v d = d @ [(k, v)]"
  by (induction d) auto

lemma foldl_update_distinct:
  "distinct (map fst kvs) \<Longrightarrow> fst ` set acc \<inter> fst ` set kvs = {} \<Longrightarrow>
   foldl (\<lambda>d (k, v). AList.update k v d) acc kvs = acc @ kvs"
proof (induction kvs arbitrary: acc)
  case Nil
  show ?case by simp
next
  case (Cons kv kvs)
  obtain k v where kv: "kv = (k, v)"
    by (cases kv)
  from Cons.prems kv have fresh: "k \<notin> fst ` set acc"
    by auto
  from Cons.prems kv have "fst ` set (acc @ [(k, v)]) \<inter> fst ` set kvs = {}"
    by auto
  with Cons.IH [of "acc @ [(k, v)]"] Cons.prems
  have "foldl (\<lambda>d (k, v). AList.update k v d) (acc @ [(k, v)]) kvs = (acc @ [(k, v)]) @ kvs"
    by simp
  with fresh kv show ?case
    by (simp add: update_fresh)
qed

lemma json_round_trip:
  "json_native v \<Longrightarrow> \<exists>j. to_json v = Inr j \<and> of_json j = v"
proof (induction v)
  case (PList xs)
  have "\<exists>js. sequence (map to_json xs) = Inr js \<and> map of_json js = xs"
  proof (rule sequence_map_inverse)
    fix x assume "x \<in> set xs"
    with PList show "\<exists>j. to_json x = Inr j \<and> of_json j = x"
      by (simp add: list_all_iff)
  qed
  then show ?case
    by auto
next
  case (PDict kvs)
  let ?f = "\<lambda>kv. item_json (map_prod id to_json kv)"
  let ?g = "\<lambda>it. map_prod KStr id (map_prod id of_json it)"
  have "\<exists>items. sequence (map ?f kvs) = Inr items \<and> map ?g items = kvs"
  proof (rule sequence_map_inverse)
    fix kv assume m: "kv \<in> set kvs"
    obtain k v where kv: "kv = (k, v)"
      by (cases kv)
    from PDict.prems have "list_all (\<lambda>(k, ok). (case k of KStr s \<Rightarrow> ok | _ \<Rightarrow> False))
        (map (map_prod id json_native) kvs)"
      by simp
    with m kv have "case k of KStr s \<Rightarrow> json_native v | _ \<Rightarrow> False"
      by (force simp: list_all_iff)
    then obtain s where k: "k = KStr s" and n: "json_native v"
      by (cases k) simp_all
    from PDict.IH m kv n obtain j where "to_json v = Inr j" "of_json j = v"
      by fastforce
    with kv k show "\<exists>j. ?f kv = Inr j \<and> ?g j = kv"
      by (simp add: key_str_def)
  qed
  then obtain items where items: "sequence (map ?f kvs) = Inr items" "map ?g items = kvs"
    by blast
  from PDict.prems have "distinct (map fst kvs)"
    by simp
  then have "foldl (\<lambda>d (k, v). AList.update k v d) [] kvs = kvs"
    using foldl_update_distinct [of kvs "[]"] by simp
  with items show ?case
    by (simp add: comp_def)
qed simp_all


section \<open>Properties of the vector store\<close>

lemma store_keys_distinct:
  "str ''dimension'' \<noteq> str ''vectors''" "str ''dimension'' \<noteq> str ''metadata''"
  "str ''vectors'' \<noteq> str ''metadata''" "str ''vectors'' \<noteq> str ''dimension''"
  "str ''metadata'' \<noteq> str ''dimension''" "str ''metadata'' \<noteq> str ''vectors''"
  by (simp_all add: str_def)

lemma store_document_Inr:
  "store_document st = Inr doc \<Longrightarrow>
   \<exists>jd jv jm. to_json (s_dimension st) = Inr jd \<and> to_json (s_vectors st) = Inr jv \<and>
     to_json (s_metadata st) = Inr jm \<and>
     doc = JObj [(str ''dimension'', jd), (str ''vectors'', jv), (str ''metadata'', jm)]"
  by (auto simp: store_document_def key_str_def split: sum.splits)

lemma store_document_native:
  assumes "to_json (s_dimension st) = Inr jd" "to_json (s_vectors st) = Inr jv"
    "to_json (s_metadata st) = Inr jm"
  shows "store_document st =
     Inr (JObj [(str ''dimension'', jd), (str ''vectors'', jv), (str ''metadata'', jm)])"
  using assms by (simp add: store_document_def key_str_def)

lemma of_json_store_document:
  "of_json (JObj [(str ''dimension'', jd), (str ''vectors'', jv), (str ''metadata'', jm)]) =
     PDict [(KStr (str ''dimension''), of_json jd), (KStr (str ''vectors''), of_json jv),
            (KStr (str ''metadata''), of_json jm)]"
  by (simp add: store_keys_distinct)

lemma save_ok:
  "filepath \<notin> denied fs \<Longrightarrow> store_document st = Inr doc \<Longrightarrow> json_limits doc = None \<Longrightarrow>
   save json_limits st filepath fs =
     (Inr (), st, fs\<lparr>files := (files fs)(filepath \<mapsto> Doc doc)\<rparr>)"
  by (simp add: save_def)

lemma save_keeps_store: "fst (snd (save json_limits st filepath fs)) = st"
  by (simp add: save_def split: sum.splits option.splits)

lemma save_Inr:
  "fst (save json_limits st filepath fs) = Inr () \<Longrightarrow>
   \<exists>doc. filepath \<notin> denied fs \<and> store_document st = Inr doc \<and> json_limits doc = None \<and>
     snd (snd (save json_limits st filepath fs)) =
       fs\<lparr>files := (files fs)(filepath \<mapsto> Doc doc)\<rparr>"
  by (auto simp: save_def split: sum.splits option.splits if_splits)

lemma load_document:
  assumes "files fs filepath = Some (Doc doc)" "filepath \<notin> denied fs" "json_limits doc = None"
    "of_json doc = PDict data"
  shows "load json_limits st filepath fs =
     (Inr (),
      \<lparr>s_vectors = dict_get data (str ''vectors'') (PList []),
       s_metadata = dict_get data (str ''metadata'') (PList []),
       s_dimension = dict_get data (str ''dimension'') (s_dimension st)\<rparr>)"
  using assms by (simp add: load_def)

lemma load_no_file: "files fs filepath = None \<Longrightarrow> load json_limits st filepath fs = (Inr (), st)"
  by (simp add: load_def)

lemma load_raises_keeps:
  "fst (load json_limits st filepath fs) = Inl e \<Longrightarrow> snd (load json_limits st filepath fs) = st"
  by (auto simp: load_def split: option.splits file_content.splits pyval.splits if_splits)

lemma load_saved:
  assumes "filepath \<notin> denied fs" "json_limits doc = None"
    and doc: "doc = JObj [(str ''dimension'', jd), (str ''vectors'', jv), (str ''metadata'', jm)]"
  shows "load json_limits st' filepath (fs\<lparr>files := (files fs)(filepath \<mapsto> Doc doc)\<rparr>) =
     (Inr (), \<lparr>s_vectors = of_json jv, s_metadata = of_json jm, s_dimension = of_json jd\<rparr>)"
proof -
  let ?fs = "fs\<lparr>files := (files fs)(filepath \<mapsto> Doc doc)\<rparr>"
  let ?data = "[(KStr (str ''dimension''), of_json jd), (KStr (str ''vectors''), of_json jv),
                (KStr (str ''metadata''), of_json jm)]"
  have "files ?fs filepath = Some (Doc doc)" "filepath \<notin> denied ?fs"
    using assms by simp_all
  moreover have "of_json doc = PDict ?data"
    unfolding doc by (rule of_json_store_document)
  ultimately have "load json_limits st' filepath ?fs =
     (Inr (),
      \<lparr>s_vectors = dict_get ?data (str ''vectors'') (PList []),
       s_metadata = dict_get ?data (str ''metadata'') (PList []),
       s_dimension = dict_get ?data (str ''dimension'') (s_dimension st')\<rparr>)"
    using assms(2) by (simp add: load_document)
  then show ?thesis
    by (simp add: dict_get_def store_keys_distinct)
qed

lemma sequence_Inr: "sequence (map (\<lambda>x. Inr (f x)) xs) = Inr (map f xs)"
  by (induction xs) simp_all

lemma floats_round_trip:
  "to_json (PList (map (\<lambda>v. PList (map PFloat v)) vs)) =
     Inr (JArr (map (\<lambda>v. JArr (map JFloat v)) vs)) \<and>
   of_json (JArr (map (\<lambda>v. JArr (map JFloat v)) vs)) = PList (map (\<lambda>v. PList (map PFloat v)) vs)"
  by (simp add: comp_def sequence_Inr)

lemma save_load_round_trip:
  assumes open_ok: "filepath \<notin> denied fs"
    and native: "list_all json_native (metadata db)"
    and limits: "case store_document (store_value db) of
                   Inr doc \<Rightarrow> json_limits doc = None | Inl e \<Rightarrow> True"
  shows "fst (save json_limits (store_value db) filepath fs) = Inr () \<and>
         load json_limits st' filepath (snd (snd (save json_limits (store_value db) filepath fs))) =
           (Inr (), store_value db)"
proof -
  let ?st = "store_value db"
  let ?jv = "JArr (map (\<lambda>v. JArr (map JFloat v)) (vectors db))"
  from native have "json_native (PList (metadata db))"
    by (simp add: list_all_iff)
  then obtain jm where jm: "to_json (PList (metadata db)) = Inr jm" "of_json jm = PList (metadata db)"
    using json_round_trip by blast
  let ?doc = "JObj [(str ''dimension'', JInt (dimension db)), (str ''vectors'', ?jv),
                    (str ''metadata'', jm)]"
  have d: "store_document ?st = Inr ?doc"
    using jm(1) floats_round_trip [of "vectors db"]
    by (intro store_document_native) (simp_all add: store_value_def)
  with limits have l: "json_limits ?doc = None"
    by simp
  from open_ok d l have s: "save json_limits ?st filepath fs =
      (Inr (), ?st, fs\<lparr>files := (files fs)(filepath \<mapsto> Doc ?doc)\<rparr>)"
    by (rule save_ok)
  have "load json_limits st' filepath (fs\<lparr>files := (files fs)(filepath \<mapsto> Doc ?doc)\<rparr>) =
      (Inr (), \<lparr>s_vectors = of_json ?jv, s_metadata = of_json jm,
                s_dimension = of_json (JInt (dimension db))\<rparr>)"
    using open_ok l by (rule load_saved) simp
  with s jm show ?thesis
    by (simp add: store_value_def floats_round_trip)
qed


lemma add_document_mismatch:
  "int (length v) \<noteq> dimension db \<Longrightarrow>
   add_document db v m = (Inl (DimensionMismatch (dimension db) (length v)), db)"
  by (simp add: add_document_def)

lemma add_document_ok:
  "int (length v) = dimension db \<Longrightarrow>
   add_document db v m =
     (Inr (length (vectors db)),
      db\<lparr>vectors := vectors db @ [v], metadata := metadata db @ [m]\<rparr>)"
  by (simp add: add_document_def)

text \<open>
  C2. A vector whose length differs from the store's dimension is refused with the
  dimension-mismatch error and the store is left as it was; a vector of the right
  length is appended, with its metadata, and the id returned is the number of records
  that were there before.
\<close>

theorem C2_add_document:
  "(int (length v) \<noteq> dimension db \<longrightarrow>
      fst (add_document db v m) = Inl (DimensionMismatch (dimension db) (length v)) \<and>
      snd (add_document db v m) = db) \<and>
   (int (length v) = dimension db \<longrightarrow>
      fst (add_document db v m) = Inr (length (vectors db)) \<and>
      vectors (snd (add_document db v m)) = vectors db @ [v] \<and>
      metadata (snd (add_document db v m)) = metadata db @ [m] \<and>
      dimension (snd (add_document db v m)) = dimension db)"
  by (simp add: add_document_mismatch add_document_ok)

text \<open>A store of dimension 2 refuses a vector of length 1 and takes one of length 2 under id 0.\<close>

theorem C2_add_document_witness:
  "fst (add_document (VectorDatabase_init 2) [1] ()) = Inl (DimensionMismatch 2 1) \<and>
   snd (add_document (VectorDatabase_init 2) [1] ()) = VectorDatabase_init 2 \<and>
   fst (add_document (VectorDatabase_init 2) [1, 0] ()) = Inr 0 \<and>
   vectors (snd (add_document (VectorDatabase_init 2) [1, 0] ())) = [[1, 0]] \<and>
   metadata (snd (add_document (VectorDatabase_init 2) [1, 0] ())) = [()]"
  using C2_add_document [of "[1]" "VectorDatabase_init 2" "()"]
        C2_add_document [of "[1, 0]" "VectorDatabase_init 2" "()"]
  by (simp add: VectorDatabase_init_def)

text \<open>
  C5, as stated: the round trip gives back identical metadata, and any load replaces
  the state wholesale. A tuple in the metadata comes back as a list, and a file without
  the key \<open>dimension\<close> leaves the store the dimension it had, next to the vectors of
  the file.
\<close>

theorem C5_counterexample:
  "load (\<lambda>doc. None) (store_value (VectorDatabase_init 1)) (str ''db.json'')
     (snd (snd (save (\<lambda>doc. None)
        (store_value \<lparr>vectors = [[1]], metadata = [PTuple [PInt 1, PInt 2]], dimension = 1\<rparr>)
        (str ''db.json'') \<lparr>files = Map.empty, denied = {}\<rparr>))) =
     (Inr (),
      \<lparr>s_vectors = PList [PList [PFloat 1]], s_metadata = PList [PList [PInt 1, PInt 2]],
       s_dimension = PInt 1\<rparr>) \<and>
   store_value \<lparr>vectors = [[1]], metadata = [PTuple [PInt 1, PInt 2]], dimension = 1\<rparr> =
     \<lparr>s_vectors = PList [PList [PFloat 1]], s_metadata = PList [PTuple [PInt 1, PInt 2]],
      s_dimension = PInt 1\<rparr> \<and>
   load (\<lambda>doc. None) (store_value (VectorDatabase_init 7)) (str ''db.json'')
     \<lparr>files = [str ''db.json'' \<mapsto> Doc (JObj [(str ''vectors'', JArr [JArr [JFloat 1]])])],
      denied = {}\<rparr> =
     (Inr (),
      \<lparr>s_vectors = PList [PList [PFloat 1]], s_metadata = PList [], s_dimension = PInt 7\<rparr>)"
  by (simp add: load_def save_def store_document_def key_str_def store_value_def
      VectorDatabase_init_def dict_get_def store_keys_distinct)

text \<open>
  C5, amended. Let the metadata of a store be values of JSON (no tuple, no key that is
  not a string, no foreign object), its document within the limits of the interpreter
  and the path one that can be opened. Then \<open>save\<close> succeeds, and a \<open>load\<close> of the path
  into a fresh store, or into any other, gives the saved dimension, vectors and
  metadata. A \<open>load\<close> of a file that holds a JSON object replaces the vectors and the
  metadata by the file's (the empty list for a key the file lacks) and the dimension
  by the file's when it has one, else the store keeps its own; a \<open>load\<close> of a path
  that holds no file changes nothing.
\<close>

theorem C5_save_load:
  "(filepath \<notin> denied fs \<and> list_all json_native (metadata db) \<and>
    (case store_document (store_value db) of
       Inr saved \<Rightarrow> json_limits saved = None | Inl e \<Rightarrow> True) \<longrightarrow>
      fst (save json_limits (store_value db) filepath fs) = Inr () \<and>
      load json_limits (store_value (VectorDatabase_init d)) filepath
        (snd (snd (save json_limits (store_value db) filepath fs))) =
          (Inr (), store_value db) \<and>
      load json_limits st' filepath
        (snd (snd (save json_limits (store_value db) filepath fs))) =
          (Inr (), store_value db)) \<and>
   (files fs filepath = Some (Doc doc) \<and> filepath \<notin> denied fs \<and> json_limits doc = None \<and>
    of_json doc = PDict data \<longrightarrow>
      load json_limits st' filepath fs =
        (Inr (),
         \<lparr>s_vectors = dict_get data (str ''vectors'') (PList []),
          s_metadata = dict_get data (str ''metadata'') (PList []),
          s_dimension = dict_get data (str ''dimension'') (s_dimension st')\<rparr>)) \<and>
   (files fs filepath = None \<longrightarrow> load json_limits st' filepath fs = (Inr (), st'))"
proof (intro conjI impI)
  assume a: "filepath \<notin> denied fs \<and> list_all json_native (metadata db) \<and>
    (case store_document (store_value db) of
       Inr saved \<Rightarrow> json_limits saved = None | Inl e \<Rightarrow> True)"
  then show "fst (save json_limits (store_value db) filepath fs) = Inr ()"
    using save_load_round_trip [of filepath fs db json_limits] by simp
  from a show "load json_limits (store_value (VectorDatabase_init d)) filepath
        (snd (snd (save json_limits (store_value db) filepath fs))) =
          (Inr (), store_value db)"
    using save_load_round_trip [of filepath fs db json_limits] by simp
  from a show "load json_limits st' filepath
        (snd (snd (save json_limits (store_value db) filepath fs))) =
          (Inr (), store_value db)"
    using save_load_round_trip [of filepath fs db json_limits] by simp
next
  assume "files fs filepath = Some (Doc doc) \<and> filepath \<notin> denied fs \<and>
    json_limits doc = None \<and> of_json doc = PDict data"
  then show "load json_limits st' filepath fs =
        (Inr (),
         \<lparr>s_vectors = dict_get data (str ''vectors'') (PList []),
          s_metadata = dict_get data (str ''metadata'') (PList []),
          s_dimension = dict_get data (str ''dimension'') (s_dimension st')\<rparr>)"
    by (simp add: load_document)
next
  assume "files fs filepath = None"
  then show "load json_limits st' filepath fs = (Inr (), st')"
    by (rule load_no_file)
qed

text \<open>
  A store with one record, saved and loaded into a fresh store of dimension 384; a file
  with the vectors only, loaded into that store; and a path without a file.
\<close>

theorem C5_save_load_witness:
  "fst (save (\<lambda>doc. None)
     (store_value \<lparr>vectors = [[1, 0]],
        metadata = [PDict [(KStr (str ''type''), PStr (str ''meta''))]], dimension = 2\<rparr>)
     (str ''db.json'') \<lparr>files = Map.empty, denied = {}\<rparr>) = Inr () \<and>
   load (\<lambda>doc. None) (store_value (VectorDatabase_init 384)) (str ''db.json'')
     (snd (snd (save (\<lambda>doc. None)
        (store_value \<lparr>vectors = [[1, 0]],
           metadata = [PDict [(KStr (str ''type''), PStr (str ''meta''))]], dimension = 2\<rparr>)
        (str ''db.json'') \<lparr>files = Map.empty, denied = {}\<rparr>))) =
     (Inr (), store_value \<lparr>vectors = [[1, 0]],
        metadata = [PDict [(KStr (str ''type''), PStr (str ''meta''))]], dimension = 2\<rparr>) \<and>
   load (\<lambda>doc. None) (store_value (VectorDatabase_init 384)) (str ''db.json'')
     \<lparr>files = [str ''db.json'' \<mapsto> Doc (JObj [(str ''vectors'', JArr [])])], denied = {}\<rparr> =
     (Inr (),
      \<lparr>s_vectors = dict_get [(KStr (str ''vectors''), PList [])] (str ''vectors'') (PList []),
       s_metadata = dict_get [(KStr (str ''vectors''), PList [])] (str ''metadata'') (PList []),
       s_dimension = dict_get [(KStr (str ''vectors''), PList [])] (str ''dimension'')
                       (s_dimension (store_value (VectorDatabase_init 384)))\<rparr>) \<and>
   load (\<lambda>doc. None) (store_value (VectorDatabase_init 384)) (str ''db.json'')
     \<lparr>files = Map.empty, denied = {}\<rparr> = (Inr (), store_value (VectorDatabase_init 384))"
  using
    C5_save_load [where filepath = "str ''db.json''"
      and fs = "\<lparr>files = Map.empty, denied = {}\<rparr>"
      and db = "\<lparr>vectors = [[1, 0]],
        metadata = [PDict [(KStr (str ''type''), PStr (str ''meta''))]], dimension = 2\<rparr>"
      and json_limits = "\<lambda>doc. None" and d = 384
      and st' = "store_value (VectorDatabase_init 384)"
      and doc = "JNull" and data = "[]"]
    C5_save_load [where filepath = "str ''db.json''"
      and fs = "\<lparr>files = [str ''db.json'' \<mapsto> Doc (JObj [(str ''vectors'', JArr [])])],
                 denied = {}\<rparr>"
      and db = "\<lparr>vectors = [], metadata = [], dimension = 2\<rparr>"
      and json_limits = "\<lambda>doc. None" and d = 384
      and st' = "store_value (VectorDatabase_init 384)"
      and doc = "JObj [(str ''vectors'', JArr [])]"
      and data = "[(KStr (str ''vectors''), PList [])]"]
  by (simp split: sum.splits)

lemma store_inv_add: "store_inv db \<Longrightarrow> store_inv (snd (add_document db v m))"
  by (simp add: add_document_def store_inv_def Let_def)

lemma py_store_inv_store_value: "py_store_inv (store_value db) = store_inv db"
  by (simp add: py_store_inv_def store_value_def store_inv_def list_all_iff)

lemma row_round_trip:
  "to_json v = Inr j \<Longrightarrow> (case v of PList xs \<Rightarrow> int (length xs) = d | _ \<Rightarrow> False) \<Longrightarrow>
   (case of_json j of PList xs \<Rightarrow> int (length xs) = d | _ \<Rightarrow> False)"
  by (cases v) (auto split: sum.splits dest: sequence_length)

lemma rows_round_trip:
  "sequence (map to_json vs) = Inr js \<Longrightarrow>
   list_all (\<lambda>v. case v of PList xs \<Rightarrow> int (length xs) = d | _ \<Rightarrow> False) vs \<Longrightarrow>
   list_all (\<lambda>v. case v of PList xs \<Rightarrow> int (length xs) = d | _ \<Rightarrow> False) (map of_json js)"
proof (induction vs arbitrary: js)
  case Nil
  then show ?case by simp
next
  case (Cons v vs)
  from Cons.prems(1) obtain j js' where j: "to_json v = Inr j"
    and js': "sequence (map to_json vs) = Inr js'" and js: "js = j # js'"
    by (auto split: sum.splits)
  from Cons.prems(2) have "case v of PList xs \<Rightarrow> int (length xs) = d | _ \<Rightarrow> False"
    by simp
  with j have "case of_json j of PList xs \<Rightarrow> int (length xs) = d | _ \<Rightarrow> False"
    by (rule row_round_trip)
  moreover from Cons.IH [OF js'] Cons.prems(2)
  have "list_all (\<lambda>v. case v of PList xs \<Rightarrow> int (length xs) = d | _ \<Rightarrow> False) (map of_json js')"
    by simp
  ultimately show ?case
    using js by simp
qed

lemma load_after_save_inv:
  assumes inv: "py_store_inv st"
    and ok: "fst (save json_limits st filepath fs) = Inr ()"
  shows "py_store_inv (snd (load json_limits st' filepath
           (snd (snd (save json_limits st filepath fs)))))"
proof -
  from ok obtain doc where o: "filepath \<notin> denied fs" and d: "store_document st = Inr doc"
    and l: "json_limits doc = None"
    and fs': "snd (snd (save json_limits st filepath fs)) =
                fs\<lparr>files := (files fs)(filepath \<mapsto> Doc doc)\<rparr>"
    using save_Inr by blast
  from d obtain jd jv jm where jd: "to_json (s_dimension st) = Inr jd"
    and jv: "to_json (s_vectors st) = Inr jv"
    and doc: "doc = JObj [(str ''dimension'', jd), (str ''vectors'', jv), (str ''metadata'', jm)]"
    using store_document_Inr by blast
  from inv obtain n vs where n: "s_dimension st = PInt n" and vs: "s_vectors st = PList vs"
    and rows: "list_all (\<lambda>v. case v of PList xs \<Rightarrow> int (length xs) = n | _ \<Rightarrow> False) vs"
    by (auto simp: py_store_inv_def split: pyval.splits)
  from jd n have jd': "of_json jd = PInt n"
    by auto
  from jv vs obtain js where js: "sequence (map to_json vs) = Inr js" and jv': "jv = JArr js"
    by (auto split: sum.splits)
  from js rows
  have "list_all (\<lambda>v. case v of PList xs \<Rightarrow> int (length xs) = n | _ \<Rightarrow> False) (map of_json js)"
    by (rule rows_round_trip)
  with jd' jv' have "py_store_inv
     \<lparr>s_vectors = of_json jv, s_metadata = of_json jm, s_dimension = of_json jd\<rparr>"
    by (simp add: py_store_inv_def)
  moreover have "load json_limits st' filepath (fs\<lparr>files := (files fs)(filepath \<mapsto> Doc doc)\<rparr>) =
     (Inr (), \<lparr>s_vectors = of_json jv, s_metadata = of_json jm, s_dimension = of_json jd\<rparr>)"
    using o l doc by (rule load_saved)
  ultimately show ?thesis
    using fs' by simp
qed

text \<open>
  C6, as stated: \<open>load\<close> preserves the invariant. It reads the file as it is: a file
  whose vectors are not as long as its dimension says breaks the invariant of a fresh
  store.
\<close>

theorem C6_counterexample:
  "py_store_inv (store_value (VectorDatabase_init 3)) \<and>
   \<not> py_store_inv (snd (load (\<lambda>doc. None) (store_value (VectorDatabase_init 3))
      (str ''db.json'')
      \<lparr>files = [str ''db.json'' \<mapsto>
         Doc (JObj [(str ''dimension'', JInt 3), (str ''vectors'', JArr [JArr [JFloat 1, JFloat 2]]),
                    (str ''metadata'', JArr [JNull])])],
       denied = {}\<rparr>))"
  by (simp add: load_def store_value_def VectorDatabase_init_def dict_get_def
      store_keys_distinct py_store_inv_def)

text \<open>
  C6, amended. The invariant holds of a new store. \<open>add_document\<close> keeps it, and refuses
  a vector of another length, leaving the store as it was. A search and a save do not
  write the store. A load keeps the invariant when the file was saved, with success,
  from a store that had it, when there is no file, and when it raises, which leaves
  the store as it was. On the attributes as Python values the invariant is
  \<open>py_store_inv\<close>, which on a store is \<open>store_inv\<close>.
\<close>

theorem C6_store_invariant:
  "store_inv (VectorDatabase_init d :: pyval VectorDatabase) \<and>
   py_store_inv (store_value db) = store_inv db \<and>
   (store_inv db \<longrightarrow> store_inv (snd (add_document db v m))) \<and>
   (int (length v) \<noteq> dimension db \<longrightarrow>
      fst (add_document db v m) = Inl (DimensionMismatch (dimension db) (length v)) \<and>
      snd (add_document db v m) = db) \<and>
   (store_inv db \<longrightarrow> store_inv (snd (search_method db q k))) \<and>
   (py_store_inv st \<longrightarrow> py_store_inv (fst (snd (save json_limits st filepath fs)))) \<and>
   (py_store_inv st \<and> fst (save json_limits st filepath fs) = Inr () \<longrightarrow>
      py_store_inv (snd (load json_limits st' filepath
        (snd (snd (save json_limits st filepath fs)))))) \<and>
   (py_store_inv st \<and>
    (files fs filepath = None \<or> fst (load json_limits st filepath fs) \<noteq> Inr ()) \<longrightarrow>
      py_store_inv (snd (load json_limits st filepath fs)))"
proof (intro conjI impI)
  show "store_inv (VectorDatabase_init d :: pyval VectorDatabase)"
    by (simp add: store_inv_def VectorDatabase_init_def)
  show "py_store_inv (store_value db) = store_inv db"
    by (rule py_store_inv_store_value)
  show "store_inv (snd (add_document db v m))" if "store_inv db"
    using that by (rule store_inv_add)
  show "fst (add_document db v m) = Inl (DimensionMismatch (dimension db) (length v))"
    and "snd (add_document db v m) = db" if "int (length v) \<noteq> dimension db"
    using that by (simp_all add: add_document_mismatch)
  show "store_inv (snd (search_method db q k))" if "store_inv db"
    using that by (simp add: search_method_def)
  show "py_store_inv (fst (snd (save json_limits st filepath fs)))" if "py_store_inv st"
    using that by (simp add: save_keeps_store)
  show "py_store_inv (snd (load json_limits st' filepath
        (snd (snd (save json_limits st filepath fs)))))"
    if "py_store_inv st \<and> fst (save json_limits st filepath fs) = Inr ()"
    using that load_after_save_inv by blast
  show "py_store_inv (snd (load json_limits st filepath fs))"
    if a: "py_store_inv st \<and>
      (files fs filepath = None \<or> fst (load json_limits st filepath fs) \<noteq> Inr ())"
  proof (cases "fst (load json_limits st filepath fs)")
    case (Inl e)
    then have "snd (load json_limits st filepath fs) = st"
      by (rule load_raises_keeps)
    with a show ?thesis by simp
  next
    case (Inr u)
    with a have "files fs filepath = None"
      by simp
    then have "load json_limits st filepath fs = (Inr (), st)"
      by (rule load_no_file)
    with a show ?thesis by simp
  qed
qed

text \<open>
  The same on a store of dimension 2 that holds one record: after an add, a refused add,
  a search and a save, after a load of the saved file into a store of dimension 5, and
  after a load of a path without a file.
\<close>

theorem C6_store_invariant_witness:
  "store_inv (VectorDatabase_init 2 :: pyval VectorDatabase) \<and>
   store_inv (snd (add_document
     \<lparr>vectors = [[1, 0]], metadata = [PStr (str ''a'')], dimension = 2\<rparr> [0, 1] (PStr (str ''b'')))) \<and>
   fst (add_document
     \<lparr>vectors = [[1, 0]], metadata = [PStr (str ''a'')], dimension = 2\<rparr> [1] (PStr (str ''b''))) =
       Inl (DimensionMismatch 2 1) \<and>
   store_inv (snd (search_method
     \<lparr>vectors = [[1, 0]], metadata = [PStr (str ''a'')], dimension = 2\<rparr> [1, 0] 1)) \<and>
   py_store_inv (fst (snd (save (\<lambda>doc. None)
     (store_value \<lparr>vectors = [[1, 0]], metadata = [PStr (str ''a'')], dimension = 2\<rparr>)
     (str ''db.json'') \<lparr>files = Map.empty, denied = {}\<rparr>))) \<and>
   py_store_inv (snd (load (\<lambda>doc. None) (store_value (VectorDatabase_init 5)) (str ''db.json'')
     (snd (snd (save (\<lambda>doc. None)
        (store_value \<lparr>vectors = [[1, 0]], metadata = [PStr (str ''a'')], dimension = 2\<rparr>)
        (str ''db.json'') \<lparr>files = Map.empty, denied = {}\<rparr>))))) \<and>
   py_store_inv (snd (load (\<lambda>doc. None)
     (store_value \<lparr>vectors = [[1, 0]], metadata = [PStr (str ''a'')], dimension = 2\<rparr>)
     (str ''db.json'') \<lparr>files = Map.empty, denied = {}\<rparr>))"
proof -
  let ?db = "\<lparr>vectors = [[1, 0]], metadata = [PStr (str ''a'')], dimension = 2\<rparr>"
  let ?fs = "\<lparr>files = Map.empty, denied = {}\<rparr>"
  let ?L = "\<lambda>doc :: json. None :: error option"
  have i: "store_inv ?db"
    by (simp add: store_inv_def)
  have l: "int (length [1 :: real]) \<noteq> dimension ?db"
    by simp
  have s: "fst (save ?L (store_value ?db) (str ''db.json'') ?fs) = Inr ()"
    using save_load_round_trip [of "str ''db.json''" ?fs ?db ?L]
    by (simp split: sum.splits)
  have n: "files ?fs (str ''db.json'') = None"
    by simp
  from i l s n
    C6_store_invariant [where d = 2 and db = ?db and v = "[0, 1]" and m = "PStr (str ''b'')"
      and q = "[1, 0]" and k = 1 and st = "store_value ?db" and json_limits = ?L
      and filepath = "str ''db.json''" and fs = ?fs and st' = "store_value (VectorDatabase_init 5)"]
    C6_store_invariant [where d = 2 and db = ?db and v = "[1]" and m = "PStr (str ''b'')"
      and q = "[1, 0]" and k = 1 and st = "store_value ?db" and json_limits = ?L
      and filepath = "str ''db.json''" and fs = ?fs and st' = "store_value (VectorDatabase_init 5)"]
  show ?thesis
    by simp
qed


section \<open>Properties of the search\<close>

lemma py_slice_from_last:
  "0 < k \<Longrightarrow> py_slice_from xs (- int k) = drop (length xs - k) xs"
proof -
  assume "0 < k"
  moreover have "nat (int (length xs) - int k) = length xs - k" by arith
  ultimately show ?thesis by (simp add: py_slice_from_def)
qed

lemma eps_pos: "0 < eps"
  by (simp add: eps_def)





lemma argsort_nonempty: "xs \<noteq> [] \<Longrightarrow> argsort xs \<noteq> []"
  by (metis argsort_def length_greater_0_conv length_sort length_upt minus_nat.diff_0)

lemma search_empty: "vectors db = [] \<Longrightarrow> search db q k = Inr []"
  by (simp add: search_def)

lemma collect_results_all:
  "list_all (\<lambda>i. i < length md) idxs \<Longrightarrow>
   collect_results sims md idxs = Inr (map (\<lambda>i. (i, sims ! i, md ! i)) idxs)"
  by (induction idxs) simp_all

lemma set_argsort: "set (argsort xs) = {0..<length xs}"
  by (simp add: argsort_def)

lemma length_argsort: "length (argsort xs) = length xs"
  by (simp add: argsort_def)

lemma sorted_argsort: "sorted (map (\<lambda>i. xs ! i) (argsort xs))"
  by (simp add: argsort_def sorted_sort_key)

lemma distinct_argsort: "distinct (argsort xs)"
  by (simp add: argsort_def)

text \<open>
  With \<open>k\<close> at least 1, a query as long as the stored rows and as many metadata as
  vectors, a search returns \<open>min k n\<close> triples of distinct records, each with its own
  similarity and metadata, in descending order of similarity.
\<close>

lemma search_top_k:
  assumes ne: "vectors db \<noteq> []"
    and shape: "list_all (\<lambda>v. length v = length q) (vectors db)"
    and md: "length (metadata db) = length (vectors db)"
    and k: "0 < k"
  shows "\<exists>rs. search db q k = Inr rs \<and>
           length rs = min (nat k) (length (vectors db)) \<and>
           sorted (rev (map (\<lambda>(i, s, m). s) rs)) \<and>
           distinct (map fst rs) \<and>
           list_all (\<lambda>(i, s, m). i < length (vectors db) \<and>
                       s = similarity q (vectors db ! i) \<and> m = metadata db ! i) rs"
proof -
  let ?n = "length (vectors db)"
  let ?sims = "map (similarity q) (vectors db)"
  let ?kept = "drop (?n - nat k) (argsort ?sims)"
  let ?rs = "map (\<lambda>i. (i, ?sims ! i, metadata db ! i)) (rev ?kept)"
  from k have "py_slice_from (argsort ?sims) (- k) = drop (length (argsort ?sims) - nat k) (argsort ?sims)"
    using py_slice_from_last [of "nat k" "argsort ?sims"] by simp
  then have top: "rev (py_slice_from (argsort ?sims) (- k)) = rev ?kept"
    by (simp add: length_argsort)
  have sub: "set ?kept \<subseteq> {0..<?n}"
    using set_drop_subset [of "?n - nat k" "argsort ?sims"] by (simp add: set_argsort)
  then have idx: "list_all (\<lambda>i. i < length (metadata db)) (rev ?kept)"
    by (auto simp: list_all_iff md)
  from shape have "\<not> list_ex (\<lambda>v. length v \<noteq> length q) (vectors db)"
    by (simp add: list_all_iff list_ex_iff)
  with ne top collect_results_all [OF idx] have res: "search db q k = Inr ?rs"
    by (simp add: search_def Let_def)
  have len: "length ?rs = min (nat k) ?n"
    by (simp add: length_argsort)
  have "map (\<lambda>(i, s, m). s) ?rs = rev (map (\<lambda>i. ?sims ! i) ?kept)"
    by (simp add: rev_map comp_def)
  moreover have "sorted (map (\<lambda>i. ?sims ! i) ?kept)"
    using sorted_argsort [of ?sims] by (simp add: drop_map [symmetric] sorted_wrt_drop)
  ultimately have srt: "sorted (rev (map (\<lambda>(i, s, m). s) ?rs))"
    by simp
  have dst: "distinct (map fst ?rs)"
    using distinct_argsort [of ?sims] by (simp add: comp_def distinct_drop)
  have ok: "list_all (\<lambda>(i, s, m). i < ?n \<and> s = similarity q (vectors db ! i) \<and>
               m = metadata db ! i) ?rs"
    using sub by (auto simp: list_all_iff)
  from res len srt dst ok show ?thesis
    by blast
qed

text \<open>The Cauchy-Schwarz inequality: no similarity exceeds 1.\<close>

lemma cs2:
  fixes u v p q :: real
  assumes "0 \<le> u" "0 \<le> v" "0 \<le> p" "0 \<le> q"
  shows "u * v + p * q \<le> sqrt (u * u + p * p) * sqrt (v * v + q * q)"
proof -
  have "(u * u + p * p) * (v * v + q * q) - (u * v + p * q)\<^sup>2 = (u * q - p * v)\<^sup>2"
    by (simp add: algebra_simps power2_eq_square)
  then have "(u * v + p * q)\<^sup>2 \<le> (u * u + p * p) * (v * v + q * q)"
    by (metis diff_ge_0_iff_ge zero_le_power2)
  then have "sqrt ((u * v + p * q)\<^sup>2) \<le> sqrt ((u * u + p * p) * (v * v + q * q))"
    by (simp only: real_sqrt_le_iff)
  moreover from assms have "0 \<le> u * v + p * q" by simp
  ultimately show ?thesis
    by (simp add: real_sqrt_mult)
qed

lemma sum_squares_nonneg: "0 \<le> sum_list (map (\<lambda>x. x * x) (a :: real list))"
  by (rule sum_list_nonneg) auto

lemma norm2_nonneg: "0 \<le> norm2 a"
  by (simp add: norm2_def sum_squares_nonneg)

lemma norm2_Cons: "norm2 (x # a) = sqrt (\<bar>x\<bar> * \<bar>x\<bar> + norm2 a * norm2 a)"
proof -
  show ?thesis
    by (simp add: norm2_def sum_squares_nonneg)
qed

lemma cauchy_schwarz: "\<bar>dot a b\<bar> \<le> norm2 a * norm2 b"
proof (induction a arbitrary: b)
  case Nil
  then show ?case by (simp add: dot_def norm2_def)
next
  case (Cons x a)
  show ?case
  proof (cases b)
    case Nil
    then show ?thesis by (simp add: dot_def norm2_nonneg)
  next
    case (Cons y b')
    have "\<bar>dot (x # a) (y # b')\<bar> \<le> \<bar>x\<bar> * \<bar>y\<bar> + \<bar>dot a b'\<bar>"
      by (simp add: dot_def abs_mult [symmetric]) 
    also have "\<dots> \<le> \<bar>x\<bar> * \<bar>y\<bar> + norm2 a * norm2 b'"
      using Cons.IH [of b'] by simp
    also have "\<dots> \<le> norm2 (x # a) * norm2 (y # b')"
      unfolding norm2_Cons by (rule cs2) (simp_all add: norm2_nonneg)
    finally show ?thesis using Cons by simp
  qed
qed

lemma similarity_le_1: "similarity q v \<le> 1"
proof -
  have "dot v q \<le> norm2 v * norm2 q"
    using cauchy_schwarz [of v q] by linarith
  also have "\<dots> = norm2 q * norm2 v"
    by simp
  also have "\<dots> \<le> max (norm2 q) eps * max (norm2 v) eps"
    by (rule mult_mono) (simp_all add: norm2_nonneg le_max_iff_disj)
  finally have "dot v q \<le> max (norm2 q) eps * max (norm2 v) eps" .
  moreover have "0 < max (norm2 q) eps * max (norm2 v) eps"
    using eps_pos by (simp add: less_max_iff_disj)
  ultimately show ?thesis
    by (simp add: similarity_def)
qed

text \<open>
  C3 says that a search returns up to \<open>k\<close> triples. With \<open>top_k = 0\<close> the slice
  \<open>[-top_k:]\<close> is \<open>[0:]\<close>, the whole array: a store of two records returns both.
\<close>

theorem C3_top_k_zero:
  "search \<lparr>vectors = [[1, 0], [0, 1]], metadata = [str ''a'', str ''b''], dimension = 2\<rparr>
     [1, 0] 0 = Inr [(0, 1, str ''a''), (1, 0, str ''b'')]"
  by (simp add: search_def similarity_def dot_def norm2_def eps_def argsort_def
      py_slice_from_def Let_def)


lemma similarity_exact: "similarity_with exact_arith q d = similarity q d"
  by (simp add: similarity_with_def similarity_def exact_arith_def)

lemma search_exact: "search_with exact_arith argsort db q k = search db q k"
proof -
  have "similarity_with exact_arith q = similarity q"
    by (rule ext) (rule similarity_exact)
  then show ?thesis
    by (simp add: search_with_def search_def)
qed




section \<open>Properties of the chat history\<close>

lemma get_add_to_chat_history:
  "get_chat_history (add_to_chat_history mem u r c t) u =
     drop (length (get_chat_history mem u) + 1 - 10)
       (get_chat_history mem u @ [\<lparr>role = r, content = c, timestamp = t\<rparr>])"
  using py_slice_from_last
    [of 10 "get_chat_history mem u @ [\<lparr>role = r, content = c, timestamp = t\<rparr>]"]
  by (simp add: get_chat_history_def add_to_chat_history_def Let_def)

lemma get_record_exchange:
  "u \<noteq> [] \<Longrightarrow>
   get_chat_history (record_exchange (Some u) mem ((c1, t1), (c2, t2))) u =
     drop (length (get_chat_history mem u) + 2 - 10)
       (get_chat_history mem u @
          [\<lparr>role = str ''user'', content = c1, timestamp = t1\<rparr>,
           \<lparr>role = str ''assistant'', content = c2, timestamp = t2\<rparr>])"
proof -
  assume u: "u \<noteq> []"
  have "length (get_chat_history mem u) - (length (get_chat_history mem u) - 9 + 8) +
          (length (get_chat_history mem u) - 9) = length (get_chat_history mem u) - 8"
    by arith
  with u show ?thesis
    by (simp add: record_exchange_def get_add_to_chat_history)
qed

lemma length_store_exchange:
  "u \<noteq> [] \<Longrightarrow>
   length (case store_exchange hist (Some u) q a u of None \<Rightarrow> [] | Some h \<Rightarrow> h) \<le> 10"
  using py_slice_from_last
    [of 10 "(case hist u of None \<Rightarrow> [] | Some h \<Rightarrow> h) @
              [(str ''user'', q), (str ''assistant'', a)]"]
  by (cases "hist u") (simp_all add: store_exchange_def Let_def)

text \<open>
  C7. Whatever the history was, after \<open>_add_to_chat_history\<close> it holds at most 10
  entries: the previous ones followed by the new one, cut from the front. The endpoint
  of main.py keeps the same bound. Six exchanges of a user with no history, which are
  12 appends, leave exactly the 10 most recent entries, in their order: the first
  exchange is gone.
\<close>

theorem C7_chat_history_cap:
  "length (get_chat_history (add_to_chat_history mem u r c t) u) \<le> 10 \<and>
   get_chat_history (add_to_chat_history mem u r c t) u =
     drop (length (get_chat_history mem u) + 1 - 10)
       (get_chat_history mem u @ [\<lparr>role = r, content = c, timestamp = t\<rparr>]) \<and>
   (u \<noteq> [] \<longrightarrow>
    length (case store_exchange hist (Some u) q a u of None \<Rightarrow> [] | Some h \<Rightarrow> h) \<le> 10 \<and>
    get_chat_history
      (foldl (record_exchange (Some u)) Map.empty
         [((q1, s1), (a1, t1)), ((q2, s2), (a2, t2)), ((q3, s3), (a3, t3)),
          ((q4, s4), (a4, t4)), ((q5, s5), (a5, t5)), ((q6, s6), (a6, t6))]) u =
      [\<lparr>role = str ''user'', content = q2, timestamp = s2\<rparr>,
       \<lparr>role = str ''assistant'', content = a2, timestamp = t2\<rparr>,
       \<lparr>role = str ''user'', content = q3, timestamp = s3\<rparr>,
       \<lparr>role = str ''assistant'', content = a3, timestamp = t3\<rparr>,
       \<lparr>role = str ''user'', content = q4, timestamp = s4\<rparr>,
       \<lparr>role = str ''assistant'', content = a4, timestamp = t4\<rparr>,
       \<lparr>role = str ''user'', content = q5, timestamp = s5\<rparr>,
       \<lparr>role = str ''assistant'', content = a5, timestamp = t5\<rparr>,
       \<lparr>role = str ''user'', content = q6, timestamp = s6\<rparr>,
       \<lparr>role = str ''assistant'', content = a6, timestamp = t6\<rparr>] \<and>
    length (get_chat_history
      (foldl (record_exchange (Some u)) Map.empty
         [((q1, s1), (a1, t1)), ((q2, s2), (a2, t2)), ((q3, s3), (a3, t3)),
          ((q4, s4), (a4, t4)), ((q5, s5), (a5, t5)), ((q6, s6), (a6, t6))]) u) = 10)"
proof -
  have e: "get_chat_history Map.empty u = []"
    by (simp add: get_chat_history_def)
  show ?thesis
    by (simp add: get_add_to_chat_history get_record_exchange length_store_exchange e)
qed

text \<open>Six exchanges of the user \<open>farmer\<close>: the first question and answer are gone.\<close>

theorem C7_chat_history_cap_witness:
  "str ''farmer'' \<noteq> [] \<and>
   map content (get_chat_history
     (foldl (record_exchange (Some (str ''farmer''))) Map.empty
        [((str ''q1'', []), (str ''a1'', [])), ((str ''q2'', []), (str ''a2'', [])),
         ((str ''q3'', []), (str ''a3'', [])), ((str ''q4'', []), (str ''a4'', [])),
         ((str ''q5'', []), (str ''a5'', [])), ((str ''q6'', []), (str ''a6'', []))])
     (str ''farmer'')) =
   [str ''q2'', str ''a2'', str ''q3'', str ''a3'', str ''q4'', str ''a4'',
    str ''q5'', str ''a5'', str ''q6'', str ''a6'']"
proof -
  have u: "str ''farmer'' \<noteq> []"
    by (simp add: str_def)
  from u C7_chat_history_cap [of Map.empty "str ''farmer''" "[]" "[]" "[]" Map.empty "[]" "[]"
      "str ''q1''" "[]" "str ''a1''" "[]" "str ''q2''" "[]" "str ''a2''" "[]"
      "str ''q3''" "[]" "str ''a3''" "[]" "str ''q4''" "[]" "str ''a4''" "[]"
      "str ''q5''" "[]" "str ''a5''" "[]" "str ''q6''" "[]" "str ''a6''" "[]"]
  show ?thesis by simp
qed


section \<open>Properties of the navigation suggestions\<close>

lemma not_isl_and_then:
  "\<not> isl x \<Longrightarrow> (\<And>v. \<not> isl (f v)) \<Longrightarrow> \<not> isl (and_then x f)"
  by (cases x) (simp_all add: and_then_def)

lemma present_and_true_dict: "\<not> isl (present_and_true key (JObj kvs))"
proof (cases "key \<in> set (map fst kvs)")
  case True
  then obtain v where "map_of kvs key = Some v"
    by (metis map_of_eq_None_iff not_None_eq set_map)
  with True show ?thesis
    by (simp add: present_and_true_def py_in_def py_getitem_def)
next
  case False
  then show ?thesis
    by (simp add: present_and_true_def py_in_def)
qed

lemma get_true_dict: "\<not> isl (get_true key (JObj kvs))"
  by (simp add: get_true_def py_get_def split: option.splits)

lemma topics_match_dict: "topics_iterable kvs \<Longrightarrow> \<not> isl (topics_match (JObj kvs))"
  by (auto simp: topics_iterable_def topics_match_def py_get_def py_iter_def
      split: option.splits json.splits)

lemma route_score_dict:
  assumes "topics_iterable kvs"
  shows "\<not> isl (route_score U r keywords message (JObj kvs))"
  unfolding route_score_def Let_def
  by (intro not_isl_and_then present_and_true_dict get_true_dict)
     (simp_all add: topics_match_dict [OF assms] get_true_dict)

lemma route_scores_dict:
  assumes "topics_iterable kvs"
  shows "route_scores U ck message (JObj kvs) =
     Inr (map (\<lambda>(r, keywords). (r, projr (route_score U r keywords message (JObj kvs)))) ck)"
proof (induction ck)
  case Nil
  show ?case by simp
next
  case (Cons a ck)
  obtain r kws where a: "a = (r, kws)"
    by (cases a)
  from route_score_dict [OF assms, of U r kws message]
  obtain s where "route_score U r kws message (JObj kvs) = Inr s"
    by (cases "route_score U r kws message (JObj kvs)") simp_all
  with Cons a show ?case
    by simp
qed


lemma suggest_navigations_Inr:
  assumes "route_scores U ck message e = Inr scored"
    and "chosen = take 3 (filter (\<lambda>(r, score). score > 0) (sort_key (\<lambda>(r, score). - score) scored))"
  shows "suggest_navigations U ck message e =
     Inr (if chosen = [] then [str ''/chatbot'', str ''/podcasts'', str ''/community'']
          else if str ''/chatbot'' \<in> set (map fst chosen) then map fst chosen
          else map fst chosen @ [str ''/chatbot''])"
  using assms by (simp add: suggest_navigations_def Let_def take_map)


lemma extract_keywords_example:
  "extract_keywords example_contexts =
     [(str ''/podcasts'', [str ''podcast'']), (str ''/resource-pool'', [str ''rent'']),
      (str ''/community'', [str ''talk'']), (str ''/chatbot'', [str ''chat''])]"
  by (simp add: extract_keywords_def example_contexts_def str_def)

lemma lower_example:
  "u_lower ascii_tables (str ''Learn tools talk'') = str ''learn tools talk''"
  "u_lower ascii_tables (str ''hello'') = str ''hello''"
  "u_lower ascii_tables (str ''podcast'') = str ''podcast''"
  "u_lower ascii_tables (str ''rent'') = str ''rent''"
  "u_lower ascii_tables (str ''talk'') = str ''talk''"
  "u_lower ascii_tables (str ''chat'') = str ''chat''"
  by (simp_all add: ascii_tables_def lower_def lower_cp_def str_def)












text \<open>
  With tags a dictionary whose \<open>topics\<close> can be iterated, the list is not empty and holds
  \<open>/chatbot\<close>: among the scored routes, appended to them, or in the default list.
\<close>

lemma chatbot_always:
  assumes "topics_iterable kvs"
  shows "\<exists>routes. suggest_navigations U context_keywords message (JObj kvs) = Inr routes \<and>
           routes \<noteq> [] \<and> str ''/chatbot'' \<in> set routes"
proof -
  let ?scored = "map (\<lambda>(r, kws). (r, projr (route_score U r kws message (JObj kvs))))
                   context_keywords"
  let ?chosen = "take 3 (filter (\<lambda>(r, score). score > 0)
                   (sort_key (\<lambda>(r, score). - score) ?scored))"
  have "route_scores U context_keywords message (JObj kvs) = Inr ?scored"
    using assms by (rule route_scores_dict)
  then have "suggest_navigations U context_keywords message (JObj kvs) =
       Inr (if ?chosen = [] then [str ''/chatbot'', str ''/podcasts'', str ''/community'']
            else if str ''/chatbot'' \<in> set (map fst ?chosen) then map fst ?chosen
            else map fst ?chosen @ [str ''/chatbot''])"
    by (rule suggest_navigations_Inr) simp
  then show ?thesis
    by (cases "?chosen = []") auto
qed

text \<open>
  C10 says that a list is returned for every tags dictionary. The model's reply can
  hold \<open>"topics": null\<close>, and the tags are passed on as they came: there
  \<open>extracted_entities.get("topics", [])\<close> is \<open>None\<close>, the loop over it raises a TypeError
  at the route \<open>/podcasts\<close> and no list is returned.
\<close>

theorem C10_topics_null:
  "suggest_navigations ascii_tables (extract_keywords example_contexts) (str ''hello'')
     (JObj [(str ''topics'', JNull)]) = Inl TypeError"
proof -
  have c: "present_and_true (str ''crops'') (JObj [(str ''topics'', JNull)]) = Inr False"
    "present_and_true (str ''city'') (JObj [(str ''topics'', JNull)]) = Inr False"
    by (simp_all add: present_and_true_def py_in_def str_def)
  have t: "topics_match (JObj [(str ''topics'', JNull)]) = Inl TypeError"
    by (simp add: topics_match_def py_get_def py_iter_def)
  have n: "\<not> contains (str ''hello'') (str ''learn'')"
    "\<not> contains (str ''hello'') (str ''information'')"
    by (simp_all add: str_def)
  have "route_score ascii_tables (str ''/podcasts'') [str ''podcast''] (str ''hello'')
          (JObj [(str ''topics'', JNull)]) = Inl TypeError"
    unfolding route_score_def Let_def lower_example c by (simp add: t n)
  then show ?thesis
    unfolding suggest_navigations_def extract_keywords_example by simp
qed


section \<open>Properties of the language detection\<close>

lemma letter_not_space: "is_letter c \<Longrightarrow> \<not> is_space c"
  by (auto simp: is_letter_def is_space_def)

lemma sep_not_letter: "is_sep c \<Longrightarrow> \<not> is_letter c"
  by (auto simp: is_letter_def is_space_def is_sep_def)

lemma match_language_prefix_found:
  assumes "c1 \<in> set [105, 73, 304, 305]" "c2 \<in> set [110, 78]"
    and "ws \<noteq> []" "list_all is_space ws"
    and "w \<noteq> []" "list_all is_letter w"
    and "is_sep s"
  shows "match_language_prefix (c1 # c2 # ws @ w @ s # after) = Some (w, after)"
proof -
  from assms(5,6) obtain x xs where w: "w = x # xs" and x: "is_letter x"
    by (cases w) auto
  have tw: "takeWhile is_space (ws @ w @ s # after) = ws"
    using assms(4) x w letter_not_space [OF x]
    by (simp add: list_all_iff takeWhile_append2)
  have dw: "dropWhile is_space (ws @ w @ s # after) = w @ s # after"
    using assms(4) x w letter_not_space [OF x]
    by (simp add: list_all_iff dropWhile_append2)
  have tl: "takeWhile is_letter (w @ s # after) = w"
    using assms(6) sep_not_letter [OF assms(7)]
    by (simp add: list_all_iff takeWhile_append2)
  have dl: "dropWhile is_letter (w @ s # after) = s # after"
    using assms(6) sep_not_letter [OF assms(7)]
    by (simp add: list_all_iff dropWhile_append2)
  show ?thesis
    using assms(1,2,3,5,7) by (simp add: match_language_prefix_def tw dw tl dl)
qed


lemma lower_display_names:
  "lower (str ''English'') = str ''english''"
    "lower (str ''Hindi'') = str ''hindi''"
    "lower (str ''Punjabi'') = str ''punjabi''"
    "lower (str ''Tamil'') = str ''tamil''"
    "lower (str ''Telugu'') = str ''telugu''"
    "lower (str ''Marathi'') = str ''marathi''"
  by (simp_all add: str_def lower_def lower_cp_def)

lemma lookup_language_codes:
  "lookup_language (str ''en'') = Some (str ''en'')"
    "lookup_language (str ''hi'') = Some (str ''hi'')"
    "lookup_language (str ''pa'') = Some (str ''pa'')"
    "lookup_language (str ''ta'') = Some (str ''ta'')"
    "lookup_language (str ''te'') = Some (str ''te'')"
    "lookup_language (str ''mr'') = Some (str ''mr'')"
  by (simp_all add: lookup_language_def SUPPORTED_LANGUAGES_def str_def)

lemma lookup_language_names:
  "lookup_language (str ''english'') = Some (str ''en'')"
    "lookup_language (str ''hindi'') = Some (str ''hi'')"
    "lookup_language (str ''punjabi'') = Some (str ''pa'')"
    "lookup_language (str ''tamil'') = Some (str ''ta'')"
    "lookup_language (str ''telugu'') = Some (str ''te'')"
    "lookup_language (str ''marathi'') = Some (str ''mr'')"
  by (simp_all add: lookup_language_def SUPPORTED_LANGUAGES_def str_def lower_def lower_cp_def)

lemma supported_cases:
  "(code, name) \<in> set SUPPORTED_LANGUAGES \<Longrightarrow>
   (code = str ''en'' \<and> name = str ''English'') \<or> (code = str ''hi'' \<and> name = str ''Hindi'') \<or>
   (code = str ''pa'' \<and> name = str ''Punjabi'') \<or> (code = str ''ta'' \<and> name = str ''Tamil'') \<or>
   (code = str ''te'' \<and> name = str ''Telugu'') \<or> (code = str ''mr'' \<and> name = str ''Marathi'')"
  by (simp add: SUPPORTED_LANGUAGES_def)

lemma lookup_supported:
  assumes "(code, name) \<in> set SUPPORTED_LANGUAGES" and "l = code \<or> l = lower name"
  shows "lookup_language l = Some code"
  using supported_cases [OF assms(1)] assms(2)
  by (elim disjE conjE) (simp_all add: lower_display_names lookup_language_codes lookup_language_names)

lemma str_nonempty: "str (c # cs) \<noteq> []"
  by (simp add: str_def)

lemma lower_Nil: "lower w = [] \<Longrightarrow> w = []"
  by (cases w) (auto simp: lower_def lower_cp_def split: if_splits)

lemma supported_nonempty:
  assumes "(code, name) \<in> set SUPPORTED_LANGUAGES" and "l = code \<or> l = lower name"
  shows "l \<noteq> [] \<and> code \<noteq> []"
  using supported_cases [OF assms(1)] assms(2)
  by (elim disjE conjE) (simp_all add: lower_display_names, simp_all add: str_def)

lemma hindi_match:
  "match_language_prefix (str ''in Hindi: '' @ hindi_text) = Some (str ''Hindi'', 32 # hindi_text)"
  by (simp add: match_language_prefix_def str_def hindi_text_def is_space_def is_letter_def is_sep_def)

lemma hindi_clean: "is_space 32" "dropWhile is_space hindi_text = hindi_text"
  by (simp_all add: hindi_text_def is_space_def)

lemma hindi_no_marker: "\<not> contains hindi_text (str ''in Hindi'')"
  by (simp add: hindi_text_def str_def)

text \<open>
  C9. A text that starts with "in" in any case, whitespace, a word that is the code or
  the display name of a supported language in any case, and then whitespace, a colon
  or a hyphen, is detected as that language, whatever the detection library would
  say, and cleaning it leaves what follows the prefix, without leading whitespace. In
  particular the test's sentence "in Hindi: ..." is detected as \<open>hi\<close>, and cleaning it
  leaves the Hindi sentence, in which "in Hindi" does not occur.
\<close>

theorem C9_explicit_language:
  "(c1 \<in> set [105, 73, 304, 305] \<and> c2 \<in> set [110, 78] \<and>
    ws \<noteq> [] \<and> list_all is_space ws \<and> list_all is_letter w \<and> is_sep s \<and>
    (code, name) \<in> set SUPPORTED_LANGUAGES \<and> (lower w = code \<or> lower w = lower name) \<longrightarrow>
      detect_language detect (c1 # c2 # ws @ w @ s # after) = code \<and>
      clean_language_prefix (c1 # c2 # ws @ w @ s # after) = dropWhile is_space after) \<and>
   detect_language detect (str ''in Hindi: '' @ hindi_text) = str ''hi'' \<and>
   clean_language_prefix (str ''in Hindi: '' @ hindi_text) = hindi_text \<and>
   \<not> contains (clean_language_prefix (str ''in Hindi: '' @ hindi_text)) (str ''in Hindi'')"
proof (intro conjI impI)
  assume h: "c1 \<in> set [105, 73, 304, 305] \<and> c2 \<in> set [110, 78] \<and>
    ws \<noteq> [] \<and> list_all is_space ws \<and> list_all is_letter w \<and> is_sep s \<and>
    (code, name) \<in> set SUPPORTED_LANGUAGES \<and> (lower w = code \<or> lower w = lower name)"
  then have sup: "(code, name) \<in> set SUPPORTED_LANGUAGES"
    and lw: "lower w = code \<or> lower w = lower name"
    by simp_all
  from supported_nonempty [OF sup lw] have ne: "lower w \<noteq> []" and cne: "code \<noteq> []"
    by simp_all
  from ne have "w \<noteq> []"
    by (auto simp: lower_def)
  with h have m: "match_language_prefix (c1 # c2 # ws @ w @ s # after) = Some (w, after)"
    by (intro match_language_prefix_found) simp_all
  from lookup_supported [OF sup lw] m cne
  show "detect_language detect (c1 # c2 # ws @ w @ s # after) = code"
    by (simp add: detect_language_def extract_explicit_language_def)
  from m show "clean_language_prefix (c1 # c2 # ws @ w @ s # after) = dropWhile is_space after"
    by (simp add: clean_language_prefix_def)
next
  have "lookup_language (lower (str ''Hindi'')) = Some (str ''hi'')"
    by (simp add: lower_display_names lookup_language_names)
  then show "detect_language detect (str ''in Hindi: '' @ hindi_text) = str ''hi''"
    by (simp add: detect_language_def extract_explicit_language_def hindi_match str_nonempty)
next
  show c: "clean_language_prefix (str ''in Hindi: '' @ hindi_text) = hindi_text"
    by (simp add: clean_language_prefix_def hindi_match hindi_clean)
  show "\<not> contains (clean_language_prefix (str ''in Hindi: '' @ hindi_text)) (str ''in Hindi'')"
    by (simp only: c hindi_no_marker not_False_eq_True)
qed

text \<open>The text "IN  TAMIL-x" is detected as \<open>ta\<close> and cleaned to "x".\<close>

theorem C9_explicit_language_witness:
  "detect_language (\<lambda>t. None) (str ''IN  TAMIL-x'') = str ''ta'' \<and>
   clean_language_prefix (str ''IN  TAMIL-x'') = str ''x''"
proof -
  have t: "73 # 78 # [32, 32] @ str ''TAMIL'' @ 45 # str ''x'' = str ''IN  TAMIL-x''"
    by (simp add: str_def)
  have "(str ''ta'', str ''Tamil'') \<in> set SUPPORTED_LANGUAGES"
    by (simp add: SUPPORTED_LANGUAGES_def)
  moreover have "lower (str ''TAMIL'') = lower (str ''Tamil'')"
    by (simp add: str_def lower_def lower_cp_def)
  moreover have "list_all is_space [32, 32]" "list_all is_letter (str ''TAMIL'')" "is_sep 45"
    by (simp_all add: str_def is_space_def is_letter_def is_sep_def)
  moreover have "dropWhile is_space (str ''x'') = str ''x''"
    by (simp add: str_def is_space_def)
  ultimately show ?thesis
    using C9_explicit_language [of 73 78 "[32, 32]" "str ''TAMIL''" 45 "str ''ta''"
        "str ''Tamil''" "\<lambda>t. None" "str ''x''"]
    by (simp only: t) simp
qed


section \<open>Properties of the LLM client\<close>

















end
